theory Spec2Isabelle
  imports Complex_Main "HOL-Library.Log_Nat"
begin

section \<open>KEGG pathway viewer: a model of KEGGAPP.JS\<close>

text \<open>
  The script renders a nested KEGG document as a tree, colours gene entries from an
  abundance index and assembles a KEGG map URL from a customisation panel. The model
  follows the script function by function. Conventions:
  \<^item> a JavaScript string is the sequence of its UTF-16 code units, each written as the
    one, two or three UTF-8 bytes of its value; a character outside the Basic
    Multilingual Plane is thus the six bytes of its two surrogates;
  \<^item> a JavaScript number is a binary64 value: a rational, or one of NaN, Infinity and
    -Infinity. The results of \<open>-\<close>, \<open>*\<close> and \<open>/\<close> are rounded to the nearest binary64
    value, ties to even. The sign of zero is left out: the only divisor the script forms
    is \<open>_max - _min\<close>, which is never a negative zero, and a zero dividend prints like
    the positive zero;
  \<^item> an object is the list of its own enumerable properties in enumeration order, with
    distinct keys; a property lookup also finds the members of \<open>Object.prototype\<close>;
  \<^item> an exception is a value \<open>Inl e\<close> of a sum type;
  \<^item> the page is a record of the controls the script reads and writes, each with the
    value that the browser gives it.
\<close>

subsection \<open>Strings\<close>

text \<open>
  The white space of \<open>String.prototype.trim\<close>: the code points U+0009 to U+000D, U+0020,
  U+00A0, U+1680, U+2000 to U+200A, U+2028, U+2029, U+202F, U+205F, U+3000 and U+FEFF,
  each as its UTF-8 bytes.
\<close>

definition whiteSpace :: "string list" where
  "whiteSpace =
     [[CHR 0x09], [CHR 0x0A], [CHR 0x0B], [CHR 0x0C], [CHR 0x0D], [CHR 0x20],
      [CHR 0xC2, CHR 0xA0], [CHR 0xE1, CHR 0x9A, CHR 0x80],
      [CHR 0xE2, CHR 0x80, CHR 0x80], [CHR 0xE2, CHR 0x80, CHR 0x81],
      [CHR 0xE2, CHR 0x80, CHR 0x82], [CHR 0xE2, CHR 0x80, CHR 0x83],
      [CHR 0xE2, CHR 0x80, CHR 0x84], [CHR 0xE2, CHR 0x80, CHR 0x85],
      [CHR 0xE2, CHR 0x80, CHR 0x86], [CHR 0xE2, CHR 0x80, CHR 0x87],
      [CHR 0xE2, CHR 0x80, CHR 0x88], [CHR 0xE2, CHR 0x80, CHR 0x89],
      [CHR 0xE2, CHR 0x80, CHR 0x8A], [CHR 0xE2, CHR 0x80, CHR 0xA8],
      [CHR 0xE2, CHR 0x80, CHR 0xA9], [CHR 0xE2, CHR 0x80, CHR 0xAF],
      [CHR 0xE2, CHR 0x81, CHR 0x9F], [CHR 0xE3, CHR 0x80, CHR 0x80],
      [CHR 0xEF, CHR 0xBB, CHR 0xBF]]"

text \<open>
  \<open>strip table s\<close> takes from the front of \<open>s\<close> every character of the table, until the
  front is none of them.
\<close>

function strip :: "string list \<Rightarrow> string \<Rightarrow> string" where
  "strip table s =
     (case find (\<lambda>w. w \<noteq> [] \<and> take (length w) s = w) table of
        None \<Rightarrow> s
      | Some w \<Rightarrow> strip table (drop (length w) s))"
  by pat_completeness auto
termination
proof (relation "measure (\<lambda>(table, s). length s)")
  show "wf (measure (\<lambda>(table, s). length s))"
    by simp
next
  fix table :: "string list" and s w :: string
  assume "find (\<lambda>w. w \<noteq> [] \<and> take (length w) s = w) table = Some w"
  then have w: "w \<noteq> []" and t: "take (length w) s = w"
    by (auto simp: find_Some_iff)
  from w have "0 < length w"
    by simp
  moreover from t have "length (take (length w) s) = length w"
    by simp
  then have "length w \<le> length s"
    by (simp add: min_def split: if_splits)
  ultimately show "((table, drop (length w) s), (table, s)) \<in> measure (\<lambda>(table, s). length s)"
    by (cases w) auto
qed

declare strip.simps [simp del]

text \<open>\<open>String.prototype.trim\<close>: the white space is taken from both ends.\<close>

definition trim :: "string \<Rightarrow> string" where
  "trim s = rev (strip (map rev whiteSpace) (rev (strip whiteSpace s)))"

definition isDigit :: "char \<Rightarrow> bool" where
  "isDigit c = (c \<in> set ''0123456789'')"

text \<open>\<open>Array.prototype.join\<close> on strings.\<close>

fun join :: "string \<Rightarrow> string list \<Rightarrow> string" where
  "join sep [] = []"
| "join sep [x] = x"
| "join sep (x # y # ys) = x @ sep @ join sep (y # ys)"

text \<open>
  \<open>String.prototype.toUpperCase\<close> on the text of a colour, which has ASCII characters
  only, and the conversion to ASCII lower case.
\<close>

definition upperChar :: "char \<Rightarrow> char" where
  "upperChar c =
     (case map_of (zip ''abcdefghijklmnopqrstuvwxyz'' ''ABCDEFGHIJKLMNOPQRSTUVWXYZ'') c of
        None \<Rightarrow> c | Some u \<Rightarrow> u)"

definition toUpperCase :: "string \<Rightarrow> string" where
  "toUpperCase s = map upperChar s"

definition lowerChar :: "char \<Rightarrow> char" where
  "lowerChar c =
     (case map_of (zip ''ABCDEFGHIJKLMNOPQRSTUVWXYZ'' ''abcdefghijklmnopqrstuvwxyz'') c of
        None \<Rightarrow> c | Some l \<Rightarrow> l)"

definition asciiLower :: "string \<Rightarrow> string" where
  "asciiLower s = map lowerChar s"

text \<open>\<open>s.padStart(2, '0')\<close>.\<close>

definition padStart2 :: "string \<Rightarrow> string" where
  "padStart2 s = replicate (2 - length s) (CHR ''0'') @ s"

text \<open>
  The code units of a string, each as a string of its own. A surrogate is a code unit
  from D800 to DFFF, whose first byte is ED and whose second byte is A0 or more; it is
  a high surrogate when the second byte is below B0.
\<close>

function codeUnits :: "string \<Rightarrow> string list" where
  "codeUnits [] = []"
| "codeUnits (c # cs) =
     (if (of_char c :: nat) < 0xC0 then [c] # codeUnits cs
      else if (of_char c :: nat) < 0xE0 then (c # take 1 cs) # codeUnits (drop 1 cs)
      else (c # take 2 cs) # codeUnits (drop 2 cs))"
  by pat_completeness auto
termination
  by (relation "measure length") auto

definition isHigh :: "string \<Rightarrow> bool" where
  "isHigh u = (length u = 3 \<and> u ! 0 = CHR 0xED \<and> (0xA0 :: nat) \<le> of_char (u ! 1) \<and>
               (of_char (u ! 1) :: nat) < 0xB0)"

definition isLow :: "string \<Rightarrow> bool" where
  "isLow u = (length u = 3 \<and> u ! 0 = CHR 0xED \<and> (0xB0 :: nat) \<le> of_char (u ! 1))"

text \<open>
  The UTF-8 bytes of a sequence of code units: a high surrogate and the low surrogate
  after it are the four bytes of their code point, any other code unit its own bytes.
  A surrogate outside such a pair is a lone surrogate.
\<close>

definition pairBytes :: "string \<Rightarrow> string \<Rightarrow> string" where
  "pairBytes h l =
     (let p = 65536 + ((of_char (h ! 1) mod 16) * 64 + of_char (h ! 2) mod 64) * 1024 +
              (of_char (l ! 1) mod 16) * 64 + of_char (l ! 2) mod 64 :: nat
      in [char_of (240 + p div 262144), char_of (128 + p div 4096 mod 64),
          char_of (128 + p div 64 mod 64), char_of (128 + p mod 64)])"

fun utf8 :: "string list \<Rightarrow> string" where
  "utf8 (h # l # us) =
     (if isHigh h \<and> isLow l then pairBytes h l @ utf8 us else h @ utf8 (l # us))"
| "utf8 [u] = u"
| "utf8 [] = []"

fun loneSurrogate :: "string list \<Rightarrow> bool" where
  "loneSurrogate (h # l # us) =
     (if isHigh h then (if isLow l then loneSurrogate us else True)
      else if isLow h then True
      else loneSurrogate (l # us))"
| "loneSurrogate [u] = (isHigh u \<or> isLow u)"
| "loneSurrogate [] = False"

text \<open>
  \<open>encodeURIComponent\<close> on a string without a lone surrogate: every byte of its UTF-8
  outside the unreserved set becomes \<open>%XX\<close> with upper-case hexadecimal digits. On a
  string with a lone surrogate the function throws a URIError; its callers test for
  that.
\<close>

definition unreserved :: "char \<Rightarrow> bool" where
  "unreserved c =
     (c \<in> set (''ABCDEFGHIJKLMNOPQRSTUVWXYZabcdefghijklmnopqrstuvwxyz0123456789-_.!~*()'' @
               [CHR 0x27]))"

definition hexUpper :: "nat \<Rightarrow> char" where
  "hexUpper n = ''0123456789ABCDEF'' ! (n mod 16)"

definition encodeChar :: "char \<Rightarrow> string" where
  "encodeChar c =
     (if unreserved c then [c]
      else [CHR ''%'', hexUpper (of_char c div 16), hexUpper (of_char c mod 16)])"

definition encodeURIComponent :: "string \<Rightarrow> string" where
  "encodeURIComponent s = concat (map encodeChar (utf8 (codeUnits s)))"

text \<open>\<open>s.replace("#", "%23")\<close>: a string pattern replaces the first occurrence only.\<close>

fun replaceHash :: "string \<Rightarrow> string" where
  "replaceHash [] = []"
| "replaceHash (c # cs) = (if c = CHR ''#'' then ''%23'' @ cs else c # replaceHash cs)"

subsection \<open>Numbers\<close>

datatype 'a ext = Fin 'a | PInf | NInf | NaN

type_synonym jsnum = "rat ext"

text \<open>
  Rounding to binary64. \<open>ilog2 x\<close> is the exponent of the power of two at or below a
  positive \<open>x\<close>; a value is a multiple of \<open>2 ^ (e - 52)\<close>, where \<open>e\<close> is that exponent and
  at least -1022 (below, the values are subnormal); the multiple is the nearest one, a
  tie going to the even multiple; a result from \<open>2 ^ 1024\<close> on is an infinity.
\<close>

definition pow2 :: "int \<Rightarrow> rat" where
  "pow2 e = (if 0 \<le> e then 2 ^ nat e else 1 / 2 ^ nat (- e))"

definition roundEven :: "rat \<Rightarrow> int" where
  "roundEven x =
     (if x - of_int \<lfloor>x\<rfloor> < 1 / 2 then \<lfloor>x\<rfloor>
      else if 1 / 2 < x - of_int \<lfloor>x\<rfloor> then \<lfloor>x\<rfloor> + 1
      else if even \<lfloor>x\<rfloor> then \<lfloor>x\<rfloor> else \<lfloor>x\<rfloor> + 1)"

definition ilog2 :: "rat \<Rightarrow> int" where
  "ilog2 x = (if 1 \<le> x then bitlen \<lfloor>x\<rfloor> - 1 else - bitlen (\<lceil>1 / x\<rceil> - 1))"

definition fl :: "rat \<Rightarrow> jsnum" where
  "fl x =
     (if x = 0 then Fin 0
      else
        let e = max (ilog2 \<bar>x\<bar>) (- 1022);
            m = roundEven (\<bar>x\<bar> / pow2 (e - 52))
        in if 1023 < e \<or> (e = 1023 \<and> 2 ^ 53 \<le> m) then (if 0 < x then PInf else NInf)
           else Fin (sgn x * of_int m * pow2 (e - 52)))"

text \<open>
  The operators \<open>-\<close>, \<open>*\<close> and \<open>/\<close> on numbers, with the IEEE results on NaN and the
  infinities; a zero divisor is the positive zero.
\<close>

fun subN :: "jsnum \<Rightarrow> jsnum \<Rightarrow> jsnum" where
  "subN NaN _ = NaN"
| "subN _ NaN = NaN"
| "subN (Fin a) (Fin b) = fl (a - b)"
| "subN (Fin a) PInf = NInf"
| "subN (Fin a) NInf = PInf"
| "subN PInf PInf = NaN"
| "subN PInf _ = PInf"
| "subN NInf NInf = NaN"
| "subN NInf _ = NInf"

fun mulN :: "jsnum \<Rightarrow> jsnum \<Rightarrow> jsnum" where
  "mulN NaN _ = NaN"
| "mulN _ NaN = NaN"
| "mulN (Fin a) (Fin b) = fl (a * b)"
| "mulN (Fin a) PInf = (if a = 0 then NaN else if 0 < a then PInf else NInf)"
| "mulN (Fin a) NInf = (if a = 0 then NaN else if 0 < a then NInf else PInf)"
| "mulN PInf (Fin b) = (if b = 0 then NaN else if 0 < b then PInf else NInf)"
| "mulN NInf (Fin b) = (if b = 0 then NaN else if 0 < b then NInf else PInf)"
| "mulN PInf PInf = PInf"
| "mulN PInf NInf = NInf"
| "mulN NInf PInf = NInf"
| "mulN NInf NInf = PInf"

fun divN :: "jsnum \<Rightarrow> jsnum \<Rightarrow> jsnum" where
  "divN NaN _ = NaN"
| "divN _ NaN = NaN"
| "divN (Fin a) (Fin b) =
     (if b = 0 then (if a = 0 then NaN else if 0 < a then PInf else NInf) else fl (a / b))"
| "divN (Fin a) _ = Fin 0"
| "divN PInf (Fin b) = (if 0 \<le> b then PInf else NInf)"
| "divN NInf (Fin b) = (if 0 \<le> b then NInf else PInf)"
| "divN _ _ = NaN"

text \<open>
  \<open>Math.round\<close>: the nearest integer, a tie going up. The result is exact: it is not
  computed by a rounded addition.
\<close>

fun mathRound :: "jsnum \<Rightarrow> int ext" where
  "mathRound (Fin x) = Fin \<lfloor>x + 1 / 2\<rfloor>"
| "mathRound PInf = PInf"
| "mathRound NInf = NInf"
| "mathRound NaN = NaN"

text \<open>\<open>Math.max(...nums)\<close> and \<open>Math.min(...nums)\<close>.\<close>

fun maxN :: "jsnum \<Rightarrow> jsnum \<Rightarrow> jsnum" where
  "maxN NaN _ = NaN"
| "maxN _ NaN = NaN"
| "maxN PInf _ = PInf"
| "maxN _ PInf = PInf"
| "maxN NInf y = y"
| "maxN x NInf = x"
| "maxN (Fin a) (Fin b) = Fin (max a b)"

fun minN :: "jsnum \<Rightarrow> jsnum \<Rightarrow> jsnum" where
  "minN NaN _ = NaN"
| "minN _ NaN = NaN"
| "minN NInf _ = NInf"
| "minN _ NInf = NInf"
| "minN PInf y = y"
| "minN x PInf = x"
| "minN (Fin a) (Fin b) = Fin (min a b)"

definition mathMax :: "jsnum list \<Rightarrow> jsnum" where
  "mathMax nums = foldl maxN NInf nums"

definition mathMin :: "jsnum list \<Rightarrow> jsnum" where
  "mathMin nums = foldl minN PInf nums"

text \<open>\<open>Number.prototype.toString(16)\<close> on the result of \<open>Math.round\<close>.\<close>

definition hexLower :: "nat \<Rightarrow> char" where
  "hexLower n = ''0123456789abcdef'' ! (n mod 16)"

function hexDigits :: "nat \<Rightarrow> string" where
  "hexDigits n = (if n < 16 then [hexLower n] else hexDigits (n div 16) @ [hexLower n])"
  by pat_completeness auto
termination
  by (relation "measure id") auto

declare hexDigits.simps [simp del]

fun toString16 :: "int ext \<Rightarrow> string" where
  "toString16 (Fin n) = (if n < 0 then ''-'' @ hexDigits (nat (- n)) else hexDigits (nat n))"
| "toString16 PInf = ''Infinity''"
| "toString16 NInf = ''-Infinity''"
| "toString16 NaN = ''NaN''"

subsection \<open>The abundance index\<close>

text \<open>
  \<open>abundanceData\<close> is the object under \<open>kegg_categories\<close> of the abundance document.
  Its values are numbers, or the values \<open>null\<close>, \<open>true\<close> and \<open>false\<close>, or strings,
  arrays and objects, all of which \<open>typeof v === 'number'\<close> sets aside. Of a string,
  an array or an object the script observes its truthiness and its conversion to a
  number, and that it has no method \<open>toFixed\<close>: the value is \<open>AOther t n\<close> with the
  truthiness \<open>t\<close> and the number \<open>n\<close>. An object is \<open>AOther True NaN\<close>.
\<close>

datatype aval = ANum jsnum | ANull | ABool bool | AOther bool jsnum

type_synonym abundance = "(string \<times> aval) list"

text \<open>
  \<open>abundanceData[k]\<close>; \<open>None\<close> is \<open>undefined\<close>. A key that is no own property is looked
  up in \<open>Object.prototype\<close>, whose members are functions, and the prototype object
  itself under \<open>__proto__\<close>: all of them objects, which are truthy and convert to NaN.
\<close>

definition protoKeys :: "string list" where
  "protoKeys = [''constructor'', ''__defineGetter__'', ''__defineSetter__'', ''hasOwnProperty'',
     ''__lookupGetter__'', ''__lookupSetter__'', ''isPrototypeOf'', ''propertyIsEnumerable'',
     ''toString'', ''valueOf'', ''__proto__'', ''toLocaleString'']"

definition getProp :: "abundance \<Rightarrow> string \<Rightarrow> aval option" where
  "getProp ab k =
     (case map_of ab k of
        Some v \<Rightarrow> Some v
      | None \<Rightarrow> if k \<in> set protoKeys then Some (AOther True NaN) else None)"

text \<open>\<open>abundanceData[k] = v\<close>: an existing key keeps its place, a new one goes last.\<close>

fun setProp :: "abundance \<Rightarrow> string \<Rightarrow> aval \<Rightarrow> abundance" where
  "setProp [] k v = [(k, v)]"
| "setProp ((k', v') # ps) k v = (if k' = k then (k, v) # ps else (k', v') # setProp ps k v)"

text \<open>Truthiness and the conversion to a number that \<open>-\<close> applies to its operands.\<close>

fun truthy :: "aval option \<Rightarrow> bool" where
  "truthy None = False"
| "truthy (Some (ANum (Fin x))) = (x \<noteq> 0)"
| "truthy (Some (ANum NaN)) = False"
| "truthy (Some (ANum _)) = True"
| "truthy (Some ANull) = False"
| "truthy (Some (ABool b)) = b"
| "truthy (Some (AOther t n)) = t"

fun toNumber :: "aval option \<Rightarrow> jsnum" where
  "toNumber None = NaN"
| "toNumber (Some (ANum n)) = n"
| "toNumber (Some ANull) = Fin 0"
| "toNumber (Some (ABool b)) = Fin (if b then 1 else 0)"
| "toNumber (Some (AOther t n)) = n"

fun numbersOf :: "abundance \<Rightarrow> jsnum list" where
  "numbersOf [] = []"
| "numbersOf ((k, ANum n) # ps) = n # numbersOf ps"
| "numbersOf (_ # ps) = numbersOf ps"

text \<open>
  \<open>loadJSON\<close>, lines 84 to 87: the bounds of the numeric values are stored in the index
  itself, under the keys \<open>_max\<close> and \<open>_min\<close>.
\<close>

definition loadJSON :: "abundance \<Rightarrow> abundance" where
  "loadJSON kegg_categories =
     (let nums = numbersOf kegg_categories;
          abundanceData = setProp kegg_categories ''_max'' (ANum (mathMax nums))
      in setProp abundanceData ''_min'' (ANum (mathMin nums)))"

text \<open>\<open>getHeatmapColor\<close>.\<close>

definition getHeatmapColor :: "abundance \<Rightarrow> string \<Rightarrow> string" where
  "getHeatmapColor abundanceData kNumber =
     (if \<not> truthy (getProp abundanceData kNumber) then ''#FFFFFF''
      else
        let ratio = divN (subN (toNumber (getProp abundanceData kNumber))
                               (toNumber (getProp abundanceData ''_min'')))
                         (subN (toNumber (getProp abundanceData ''_max''))
                               (toNumber (getProp abundanceData ''_min'')));
            r = mathRound (mulN ratio (Fin 255));
            b = mathRound (mulN (subN (Fin 1) ratio) (Fin 255))
        in toUpperCase (''#'' @ padStart2 (toString16 r) @ ''00'' @ padStart2 (toString16 b)))"

subsection \<open>The pathway document\<close>

text \<open>
  A value of the parsed document. \<open>JUndefined\<close> never comes out of \<open>JSON.parse\<close>;
  it is kept because \<open>createNode\<close> tests for it.
\<close>

datatype jsval =
    JUndefined
  | JNull
  | JBool bool
  | JNum jsnum
  | JStr string
  | JArr "jsval list"
  | JObj "(string \<times> jsval) list"

datatype error = TypeError

fun isUndefined :: "jsval \<Rightarrow> bool" where
  "isUndefined JUndefined = True"
| "isUndefined _ = False"

text \<open>The decimal digits of an array index.\<close>

function decimal :: "nat \<Rightarrow> string" where
  "decimal n = (if n < 10 then [''0123456789'' ! n] else decimal (n div 10) @ [''0123456789'' ! (n mod 10)])"
  by pat_completeness auto
termination
  by (relation "measure id") auto

text \<open>
  \<open>Object.entries\<close>: the properties of an object, the indexed elements of an array, the
  indexed code units of a string, nothing for a number or a boolean, and a TypeError for
  \<open>null\<close> and \<open>undefined\<close>.
\<close>

fun objectEntries :: "jsval \<Rightarrow> error + (string \<times> jsval) list" where
  "objectEntries (JObj es) = Inr es"
| "objectEntries (JArr xs) = Inr (zip (map decimal [0..<length xs]) xs)"
| "objectEntries (JStr s) =
     Inr (zip (map decimal [0..<length (codeUnits s)]) (map JStr (codeUnits s)))"
| "objectEntries (JNum _) = Inr []"
| "objectEntries (JBool _) = Inr []"
| "objectEntries JNull = Inl TypeError"
| "objectEntries JUndefined = Inl TypeError"

subsection \<open>The rendered tree\<close>

text \<open>
  The elements \<open>renderJSON\<close> builds, without their styling (the nesting level only
  sets a margin and is left out) and without their event handlers: a gene node carries the K
  number its click handler passes on, the trimmed description, the colour of its
  indicator and, when the lookup of the K number is not \<open>undefined\<close>, the score whose
  \<open>toFixed(2)\<close> the tooltip shows. A pathway node carries the map id its buttons pass
  on, when its label has one. The text of a leaf is a string, or the digits of a number
  (which are never blank and are kept as the number). Labels, descriptions and texts
  are the strings that the script puts into the markup of the element; how the HTML
  parser reads them is not part of the tree.
\<close>

record geneNode =
  kNumber :: string
  description :: string
  color :: string
  tooltip :: "jsnum option"

datatype shown = Text string | Digits jsnum

datatype treeNode =
    CategoryNode string "treeNode list"
  | PathwayNode string "string option" "geneNode list"
  | LeafNode string shown

text \<open>
  \<open>createGeneNode\<close>; \<open>toFixed\<close> exists on numbers only, so the tooltip of any other
  value that is not \<open>undefined\<close> (\<open>null\<close>, a boolean, a string, an array, an object, a
  member of \<open>Object.prototype\<close>) throws a TypeError.
\<close>

definition createGeneNode :: "abundance \<Rightarrow> string \<Rightarrow> string \<Rightarrow> error + geneNode option" where
  "createGeneNode abundanceData kNum desc =
     (let cleanedDesc = trim desc in
      if cleanedDesc = [] then Inr None
      else
        let col = (if truthy (getProp abundanceData kNum)
                   then getHeatmapColor abundanceData kNum else ''#FFFFFF'')
        in case getProp abundanceData kNum of
             None \<Rightarrow>
               Inr (Some \<lparr>kNumber = kNum, description = cleanedDesc, color = col, tooltip = None\<rparr>)
           | Some (ANum n) \<Rightarrow>
               Inr (Some \<lparr>kNumber = kNum, description = cleanedDesc, color = col, tooltip = Some n\<rparr>)
           | Some _ \<Rightarrow> Inl TypeError)"

text \<open>
  \<open>entries.some(([k, v]) => k.trim() && v.trim())\<close>: \<open>&&\<close> does not look at \<open>v\<close> when
  the trimmed key is empty, and \<open>some\<close> stops at the first pair that passes.
\<close>

fun someTrim :: "(string \<times> jsval) list \<Rightarrow> error + bool" where
  "someTrim [] = Inr False"
| "someTrim ((k, JStr s) # es) =
     (if trim k = [] then someTrim es else if trim s \<noteq> [] then Inr True else someTrim es)"
| "someTrim ((k, v) # es) = (if trim k = [] then someTrim es else Inl TypeError)"

text \<open>\<open>value.filter(entry => ...)\<close> of the array branch.\<close>

fun filterValue :: "jsval list \<Rightarrow> error + jsval list" where
  "filterValue [] = Inr []"
| "filterValue (entry # rest) =
     (case objectEntries entry of
        Inl e \<Rightarrow> Inl e
      | Inr entries \<Rightarrow>
          (case (if entries = [] then Inr False else someTrim entries) of
             Inl e \<Rightarrow> Inl e
           | Inr keep \<Rightarrow>
               (case filterValue rest of
                  Inl e \<Rightarrow> Inl e
                | Inr kept \<Rightarrow> Inr (if keep then entry # kept else kept))))"

text \<open>The \<open>for ... of Object.entries(entry)\<close> loop that adds the gene nodes of one entry.\<close>

fun geneLoop :: "abundance \<Rightarrow> (string \<times> jsval) list \<Rightarrow> error + geneNode list" where
  "geneLoop ab [] = Inr []"
| "geneLoop ab ((kNum, JStr desc) # rest) =
     (if trim desc = [] then geneLoop ab rest
      else
        (case createGeneNode ab kNum desc of
           Inl e \<Rightarrow> Inl e
         | Inr g \<Rightarrow>
             (case geneLoop ab rest of
                Inl e \<Rightarrow> Inl e
              | Inr gs \<Rightarrow> Inr (case g of None \<Rightarrow> gs | Some n \<Rightarrow> n # gs))))"
| "geneLoop ab ((kNum, v) # rest) = Inl TypeError"

text \<open>\<open>filteredValue.forEach(entry => ...)\<close>.\<close>

fun geneNodes :: "abundance \<Rightarrow> jsval list \<Rightarrow> error + geneNode list" where
  "geneNodes ab [] = Inr []"
| "geneNodes ab (entry # rest) =
     (case objectEntries entry of
        Inl e \<Rightarrow> Inl e
      | Inr entries \<Rightarrow>
          (case geneLoop ab entries of
             Inl e \<Rightarrow> Inl e
           | Inr gs \<Rightarrow>
               (case geneNodes ab rest of
                  Inl e \<Rightarrow> Inl e
                | Inr hs \<Rightarrow> Inr (gs @ hs))))"

text \<open>
  \<open>cleanedKey.match(/\[PATH:(ko\d+)\]/)\<close>, giving the digits after \<open>ko\<close> of the leftmost
  match; the map id is \<open>map\<close> followed by them.
\<close>

definition pathAt :: "string \<Rightarrow> string option" where
  "pathAt s =
     (if take 8 s = ''[PATH:ko'' \<and> takeWhile isDigit (drop 8 s) \<noteq> [] \<and>
         take 1 (dropWhile isDigit (drop 8 s)) = '']''
      then Some (takeWhile isDigit (drop 8 s)) else None)"

fun mapIdMatch :: "string \<Rightarrow> string option" where
  "mapIdMatch [] = None"
| "mapIdMatch (c # cs) =
     (case pathAt (c # cs) of Some ds \<Rightarrow> Some (''map'' @ ds) | None \<Rightarrow> mapIdMatch cs)"

text \<open>
  \<open>createNode\<close>, with \<open>createNodes\<close> for the \<open>forEach\<close> that appends the children which
  are not \<open>null\<close>. \<open>Inr None\<close> is the result \<open>null\<close>. The value \<open>null\<close> has type
  \<open>'object'\<close> and is no array, so it takes the object branch, where \<open>Object.entries\<close>
  throws.
\<close>

definition validEntry :: "string \<times> jsval \<Rightarrow> bool" where
  "validEntry p = (trim (fst p) \<noteq> [] \<and> \<not> isUndefined (snd p))"

function createNode :: "abundance \<Rightarrow> string \<Rightarrow> jsval \<Rightarrow> error + treeNode option"
  and createNodes :: "abundance \<Rightarrow> (string \<times> jsval) list \<Rightarrow> error + treeNode list" where
  "createNode ab key (JObj val) =
     (if trim key = [] then Inr None
      else if filter validEntry val = [] then Inr None
      else
        (case createNodes ab (filter validEntry val) of
           Inl e \<Rightarrow> Inl e
         | Inr children \<Rightarrow> Inr (Some (CategoryNode (trim key) children))))"
| "createNode ab key JNull = (if trim key = [] then Inr None else Inl TypeError)"
| "createNode ab key (JArr val) =
     (if trim key = [] then Inr None
      else
        (case filterValue val of
           Inl e \<Rightarrow> Inl e
         | Inr filteredValue \<Rightarrow>
             if filteredValue = [] then Inr None
             else
               (case geneNodes ab filteredValue of
                  Inl e \<Rightarrow> Inl e
                | Inr genes \<Rightarrow> Inr (Some (PathwayNode (trim key) (mapIdMatch (trim key)) genes)))))"
| "createNode ab key (JStr s) =
     (if trim key = [] then Inr None
      else if trim s = [] then Inr None
      else Inr (Some (LeafNode (trim key) (Text (trim s)))))"
| "createNode ab key (JNum n) =
     (if trim key = [] then Inr None else Inr (Some (LeafNode (trim key) (Digits n))))"
| "createNode ab key (JBool b) =
     (if trim key = [] then Inr None
      else Inr (Some (LeafNode (trim key) (Text (if b then ''true'' else ''false'')))))"
| "createNode ab key JUndefined =
     (if trim key = [] then Inr None else Inr (Some (LeafNode (trim key) (Text ''undefined''))))"
| "createNodes ab [] = Inr []"
| "createNodes ab ((k, v) # rest) =
     (case createNode ab k v of
        Inl e \<Rightarrow> Inl e
      | Inr childNode \<Rightarrow>
          (case createNodes ab rest of
             Inl e \<Rightarrow> Inl e
           | Inr children \<Rightarrow>
               Inr (case childNode of None \<Rightarrow> children | Some n \<Rightarrow> n # children)))"
  by pat_completeness auto
termination
proof (relation "measure (\<lambda>x. case x of
          Inl (ab, key, v) \<Rightarrow> 2 * size v
        | Inr (ab, es) \<Rightarrow> 2 * size_list (\<lambda>p. size (snd p)) es + 1)")
  show "wf (measure (\<lambda>x. case x of
          Inl (ab, key, v) \<Rightarrow> 2 * size v
        | Inr (ab, es) \<Rightarrow> 2 * size_list (\<lambda>p. size (snd p)) es + 1))"
    by simp
next
  fix ab :: abundance and key :: string and val :: "(string \<times> jsval) list"
  have "size_list (\<lambda>p. size (snd p)) (filter validEntry val)
          \<le> size_list (\<lambda>p. size (snd p)) val"
    by (induction val) auto
  also have "size_list (\<lambda>p. size (snd p)) val < size (JObj val)"
    by (induction val) auto
  finally show "(Inr (ab, filter validEntry val), Inl (ab, key, JObj val))
      \<in> measure (\<lambda>x. case x of
          Inl (ab, key, v) \<Rightarrow> 2 * size v
        | Inr (ab, es) \<Rightarrow> 2 * size_list (\<lambda>p. size (snd p)) es + 1)"
    by simp
qed auto

text \<open>
  \<open>renderJSON\<close>: the entries of the document, without the three excluded sections and
  the blank keys, each built at level 0 and appended when it is not \<open>null\<close>. The result
  is the sequence of nodes appended to the container.
\<close>

definition excluded :: "string list" where
  "excluded = [''09180 Brite Hierarchies'', ''09190 Not Included in Pathway or Brite'',
               ''09112 Not included in regular maps'']"

definition topEntry :: "string \<times> jsval \<Rightarrow> bool" where
  "topEntry p = (fst p \<notin> set excluded \<and> trim (fst p) \<noteq> [])"

definition renderJSON :: "abundance \<Rightarrow> jsval \<Rightarrow> error + treeNode list" where
  "renderJSON ab data =
     (case objectEntries data of
        Inl e \<Rightarrow> Inl e
      | Inr es \<Rightarrow> createNodes ab (filter topEntry es))"


subsection \<open>The customisation panel and the KEGG URL\<close>

text \<open>
  The test \<open>/^map\d{5}$/.test(mapId)\<close>. The pattern is a sequence of atoms, each
  matching one character, anchored at both ends.
\<close>

datatype atom = Lit char | AnyDigit

fun matchAtom :: "atom \<Rightarrow> char \<Rightarrow> bool" where
  "matchAtom (Lit l) c = (c = l)"
| "matchAtom AnyDigit c = isDigit c"

fun matchAll :: "atom list \<Rightarrow> string \<Rightarrow> bool" where
  "matchAll [] [] = True"
| "matchAll (a # as) (c # cs) = (matchAtom a c \<and> matchAll as cs)"
| "matchAll _ _ = False"

definition mapIdPattern :: "atom list" where
  "mapIdPattern = map Lit ''map'' @ replicate 5 AnyDigit"

definition testMapId :: "string \<Rightarrow> bool" where
  "testMapId mapId = matchAll mapIdPattern mapId"

text \<open>
  The controls: the pathway field, the \<open>.ec-color-option\<close> rows of \<open>colorSelection\<close> in
  document order (each with the values of its K number field and its two colour
  fields), the URL field, the link (the text written to its \<open>href\<close>, its label and
  whether it has the class \<open>hidden\<close>), and the messages shown by \<open>displayMessage\<close>. The
  removal of a message after five seconds is left out.
\<close>

record ecOption =
  ecNumber :: string
  bgcolor :: string
  fgcolor :: string

record page =
  pathwayInput :: string
  colorSelection :: "ecOption list"
  keggUrlInput :: string
  keggLinkHref :: string
  keggLinkText :: string
  keggLinkHidden :: bool
  messages :: "(string \<times> string) list"

definition displayMessage :: "string \<Rightarrow> string \<Rightarrow> page \<Rightarrow> page" where
  "displayMessage txt type pg = pg\<lparr>messages := messages pg @ [(txt, type)]\<rparr>"

datatype uriError = URIError

text \<open>
  The function mapped over the rows in \<open>updateKEGGUrl\<close>, lines 343 to 348, and the
  \<open>map\<close> itself, which stops at the first row that throws.
\<close>

definition queryPart :: "ecOption \<Rightarrow> uriError + string" where
  "queryPart option =
     (let ec = trim (ecNumber option);
          bg = replaceHash (bgcolor option);
          fg = replaceHash (fgcolor option)
      in if loneSurrogate (codeUnits ec) then Inl URIError
         else Inr (encodeURIComponent ec @ ''%09'' @ bg @ '','' @ fg))"

fun mapQueryPart :: "ecOption list \<Rightarrow> uriError + string list" where
  "mapQueryPart [] = Inr []"
| "mapQueryPart (option # rest) =
     (case queryPart option of
        Inl e \<Rightarrow> Inl e
      | Inr q \<Rightarrow> (case mapQueryPart rest of Inl e \<Rightarrow> Inl e | Inr qs \<Rightarrow> Inr (q # qs)))"

text \<open>\<open>updateKEGGUrl\<close>. Nothing is written to the page before the rows are mapped.\<close>

definition updateKEGGUrl :: "page \<Rightarrow> uriError + page" where
  "updateKEGGUrl pg =
     (let mapId = trim (pathwayInput pg) in
      if \<not> testMapId mapId then
        Inr ((if mapId \<noteq> []
              then displayMessage ''Invalid pathway ID. Must be in format map00000'' ''error'' pg
              else pg)
               \<lparr>keggUrlInput := [], keggLinkHref := ''#'', keggLinkText := [],
                keggLinkHidden := True\<rparr>)
      else if colorSelection pg = [] then
        Inr (displayMessage ''Please add at least one K number'' ''error'' pg)
      else
        (case mapQueryPart (colorSelection pg) of
           Inl e \<Rightarrow> Inl e
         | Inr queryParts \<Rightarrow>
             let defaultColor = ''%23FFFFFF'';
                 keggUrl = ''https://www.kegg.jp/kegg-bin/show_pathway?'' @ mapId @ ''/'' @
                             join ''/'' queryParts @ ''/default%3d'' @ defaultColor
             in Inr (pg\<lparr>keggUrlInput := keggUrl, keggLinkHref := keggUrl,
                       keggLinkText := ''Open KEGG Map'', keggLinkHidden := False\<rparr>)))"

text \<open>
  The markup of a row, lines 446 to 461, puts the K number and the two colours between
  the quotation marks of a \<open>value\<close> attribute. \<open>attrValue\<close> is the value the HTML parser
  reads there: \<open>&amp;\<close> is the character \<open>&\<close>, a NUL is U+FFFD, an ampersand before
  anything but a letter, a digit or \<open>#\<close> stands for itself, and every other character
  stands for itself. A quotation mark ends the value. The text after it is read as
  further attributes of the field, which are without effect (\<open>type\<close>, \<open>class\<close> and
  \<open>value\<close> are set before), as long as it has no \<open>=\<close>, which may open a value that
  takes in the markup behind the field, and no \<open>>\<close>, which ends the tag. The result is
  \<open>None\<close> where the model stops: at such a text, whose effect on the row depends on all
  the markup, and at a character reference other than \<open>&amp;\<close>, whose reading needs the
  table of their names.
\<close>

definition isAlnum :: "char \<Rightarrow> bool" where
  "isAlnum c =
     (c \<in> set ''ABCDEFGHIJKLMNOPQRSTUVWXYZabcdefghijklmnopqrstuvwxyz0123456789'')"

function attrValue :: "string \<Rightarrow> string option" where
  "attrValue [] = Some []"
| "attrValue (c # cs) =
     (if c = CHR 0x22 then
        (if list_ex (\<lambda>d. d = CHR ''='' \<or> d = CHR ''>'') cs then None else Some [])
      else if c = CHR ''&'' \<and> take 4 cs = ''amp;'' then
        map_option (\<lambda>r. CHR ''&'' # r) (attrValue (drop 4 cs))
      else if c = CHR ''&'' \<and> cs \<noteq> [] \<and> (isAlnum (hd cs) \<or> hd cs = CHR ''#'') then None
      else if c = CHR 0x00 then
        map_option (\<lambda>r. [CHR 0xEF, CHR 0xBF, CHR 0xBD] @ r) (attrValue cs)
      else map_option (\<lambda>r. c # r) (attrValue cs))"
  by pat_completeness auto
termination
  by (relation "measure length") auto

text \<open>
  The value of a control. A text field takes the line feeds and carriage returns out
  of its value. A colour field holds a valid simple colour, \<open>#\<close> and six hexadecimal
  digits, in ASCII lower case, and \<open>#000000\<close> in place of anything else.
\<close>

definition textValue :: "string \<Rightarrow> string" where
  "textValue v = filter (\<lambda>c. c \<noteq> CHR 0x0A \<and> c \<noteq> CHR 0x0D) v"

definition isHexDigit :: "char \<Rightarrow> bool" where
  "isHexDigit c = (c \<in> set ''0123456789abcdefABCDEF'')"

definition isSimpleColor :: "string \<Rightarrow> bool" where
  "isSimpleColor s = (length s = 7 \<and> take 1 s = ''#'' \<and> list_all isHexDigit (drop 1 s))"

definition colorValue :: "string \<Rightarrow> string" where
  "colorValue v = (if isSimpleColor v then asciiLower v else ''#000000'')"

text \<open>
  \<open>addECToCustomURL\<close>; an argument \<open>None\<close> is one the caller left out, which takes the
  default of the parameter. The identifier is compared with the values of the K number
  fields, and the new row holds the values its controls take from the markup. The
  result is \<open>None\<close> where \<open>attrValue\<close> is.
\<close>

definition addECToCustomURL ::
  "page \<Rightarrow> string \<Rightarrow> string option \<Rightarrow> string option \<Rightarrow> (uriError + page) option" where
  "addECToCustomURL pg kNum bgColor fgColor =
     (if list_ex (\<lambda>input. ecNumber input = kNum) (colorSelection pg) then Some (Inr pg)
      else
        (case (attrValue kNum,
               attrValue (case bgColor of None \<Rightarrow> ''#FF0000'' | Some c \<Rightarrow> c),
               attrValue (case fgColor of None \<Rightarrow> ''#FFFFFF'' | Some c \<Rightarrow> c)) of
           (Some n, Some b, Some f) \<Rightarrow>
             Some (updateKEGGUrl
               (pg\<lparr>colorSelection := colorSelection pg @
                  [\<lparr>ecNumber = textValue n, bgcolor = colorValue b, fgcolor = colorValue f\<rparr>]\<rparr>))
         | _ \<Rightarrow> None))"

text \<open>\<open>generateHeatmapKEGGUrl\<close>.\<close>

definition generateHeatmapKEGGUrl :: "abundance \<Rightarrow> string \<Rightarrow> string list \<Rightarrow> string" where
  "generateHeatmapKEGGUrl ab mapId kNumbers =
     (let dataset = join ''/''
            (map (\<lambda>k. k @ ''%09'' @ encodeURIComponent (getHeatmapColor ab k)) kNumbers)
      in ''https://www.kegg.jp/kegg-bin/show_pathway?'' @ mapId @ ''/'' @ dataset @
           ''/default%3d%23FFFFFF'')"

text \<open>
  The channels of a colour string \<open>#RRGGBB\<close>, read back as numbers; \<open>None\<close> when the two
  characters are not hexadecimal digits.
\<close>

definition hexVal :: "char \<Rightarrow> nat option" where
  "hexVal c = map_of (zip ''0123456789ABCDEF'' [0, 1, 2, 3, 4, 5, 6, 7, 8, 9, 10, 11, 12, 13, 14, 15]) c"

definition channel :: "nat \<Rightarrow> string \<Rightarrow> nat option" where
  "channel i s =
     (case (hexVal (s ! i), hexVal (s ! Suc i)) of
        (Some h, Some l) \<Rightarrow> if length s = 7 then Some (16 * h + l) else None
      | _ \<Rightarrow> None)"

definition redChannel :: "string \<Rightarrow> nat option" where
  "redChannel s = channel 1 s"

definition blueChannel :: "string \<Rightarrow> nat option" where
  "blueChannel s = channel 5 s"

text \<open>The index loaded from an abundance document without entries.\<close>

definition emptyIndex :: abundance where
  "emptyIndex = loadJSON []"

text \<open>
  The controls once \<open>loadJSON\<close> has run \<open>updateKEGGUrl\<close> on the empty form: no pathway
  id, no row, no URL, the link hidden.
\<close>

definition loadedPage :: page where
  "loadedPage = \<lparr>pathwayInput = [], colorSelection = [], keggUrlInput = [],
     keggLinkHref = ''#'', keggLinkText = [], keggLinkHidden = True, messages = []\<rparr>"

subsection \<open>Vocabulary of the properties\<close>

text \<open>
  A value that a colour field can hold is one that the field leaves as it is; a row
  has colour fields when both its colours are such values, and is well formed when its
  trimmed identifier has no lone surrogate.
\<close>

definition colorField :: "string \<Rightarrow> bool" where
  "colorField c = (colorValue c = c)"

definition colorFields :: "ecOption \<Rightarrow> bool" where
  "colorFields e = (colorField (bgcolor e) \<and> colorField (fgcolor e))"

definition wellFormed :: "ecOption \<Rightarrow> bool" where
  "wellFormed e = (\<not> loneSurrogate (codeUnits (trim (ecNumber e))))"



text \<open>
  The comparison \<open><=\<close> on numbers, and the numbers that are not NaN.
\<close>

fun leN :: "jsnum \<Rightarrow> jsnum \<Rightarrow> bool" where
  "leN NaN _ = False"
| "leN _ NaN = False"
| "leN NInf _ = True"
| "leN _ PInf = True"
| "leN (Fin a) (Fin b) = (a \<le> b)"
| "leN _ _ = False"

fun notNaN :: "jsnum \<Rightarrow> bool" where
  "notNaN NaN = False"
| "notNaN _ = True"

section \<open>Properties\<close>

subsection \<open>Auxiliary facts\<close>

text \<open>Assignment to a key of the index, and its numeric values.\<close>

lemma map_of_setProp: "map_of (setProp ab k v) = (map_of ab)(k \<mapsto> v)"
  by (induction ab) auto

lemma getProp_setProp: "getProp (setProp ab k v) k' = (if k' = k then Some v else getProp ab k')"
  by (simp add: getProp_def map_of_setProp)

lemma setProp_new: "k \<notin> set (map fst ab) \<Longrightarrow> setProp ab k v = ab @ [(k, v)]"
  by (induction ab) auto

lemma keys_setProp: "set (map fst (setProp ab k v)) = insert k (set (map fst ab))"
proof -
  have "dom (map_of (setProp ab k v)) = insert k (dom (map_of ab))"
    by (simp add: map_of_setProp)
  then show ?thesis
    by (simp add: dom_map_of_conv_image_fst)
qed

lemma numbersOf_set: "n \<in> set (numbersOf a) \<longleftrightarrow> (\<exists>k. (k, ANum n) \<in> set a)"
  by (induction a rule: numbersOf.induct) auto

lemma numbersOf_empty: "\<forall>k n. (k, ANum n) \<notin> set a \<Longrightarrow> numbersOf a = []"
  by (induction a rule: numbersOf.induct) auto

lemma loaded_max: "getProp (loadJSON a) ''_max'' = Some (ANum (mathMax (numbersOf a)))"
  by (simp add: loadJSON_def Let_def getProp_setProp)

lemma loaded_min: "getProp (loadJSON a) ''_min'' = Some (ANum (mathMin (numbersOf a)))"
  by (simp add: loadJSON_def Let_def getProp_setProp)

lemma loaded_other:
  "k \<noteq> ''_max'' \<Longrightarrow> k \<noteq> ''_min'' \<Longrightarrow> getProp (loadJSON a) k = getProp a k"
  by (simp add: loadJSON_def Let_def getProp_setProp)

lemma loaded_keys: "''_max'' \<in> set (map fst (loadJSON a))" "''_min'' \<in> set (map fst (loadJSON a))"
  using keys_setProp [of "setProp a ''_max'' (ANum (mathMax (numbersOf a)))" "''_min''"
      "ANum (mathMin (numbersOf a))"]
    keys_setProp [of a "''_max''" "ANum (mathMax (numbersOf a))"]
  by (auto simp: loadJSON_def Let_def)

text \<open>The largest and the least of a list of numbers without NaN.\<close>

lemma maxN_cases:
  "notNaN x \<Longrightarrow> notNaN y \<Longrightarrow>
   notNaN (maxN x y) \<and> (maxN x y = x \<or> maxN x y = y) \<and> leN x (maxN x y) \<and> leN y (maxN x y)"
  by (cases x; cases y) (auto simp: max_def)

lemma minN_cases:
  "notNaN x \<Longrightarrow> notNaN y \<Longrightarrow>
   notNaN (minN x y) \<and> (minN x y = x \<or> minN x y = y) \<and> leN (minN x y) x \<and> leN (minN x y) y"
  by (cases x; cases y) (auto simp: min_def)

lemma leN_trans: "leN x y \<Longrightarrow> leN y z \<Longrightarrow> leN x z"
  by (cases x; cases y; cases z) auto

lemma leN_NInf: "leN x NInf \<Longrightarrow> x = NInf"
  by (cases x) auto

lemma leN_PInf: "leN PInf x \<Longrightarrow> x = PInf"
  by (cases x) auto

lemma foldl_maxN:
  "list_all notNaN ns \<Longrightarrow> notNaN acc \<Longrightarrow>
   notNaN (foldl maxN acc ns) \<and> foldl maxN acc ns \<in> set (acc # ns)
   \<and> leN acc (foldl maxN acc ns) \<and> list_all (\<lambda>n. leN n (foldl maxN acc ns)) ns"
proof (induction ns arbitrary: acc)
  case Nil
  then show ?case by (cases acc) auto
next
  case (Cons n ns)
  let ?r = "foldl maxN (maxN acc n) ns"
  from Cons.prems have n: "notNaN n" and ns: "list_all notNaN ns"
    by simp_all
  from Cons.prems(2) n have m: "notNaN (maxN acc n)" "maxN acc n = acc \<or> maxN acc n = n"
    "leN acc (maxN acc n)" "leN n (maxN acc n)"
    using maxN_cases [of acc n] by blast+
  from Cons.IH [OF ns m(1)] have r: "notNaN ?r" "?r \<in> set (maxN acc n # ns)"
    "leN (maxN acc n) ?r" "list_all (\<lambda>n. leN n ?r) ns"
    by blast+
  from m(3) r(3) have a: "leN acc ?r"
    by (rule leN_trans)
  from m(4) r(3) have b: "leN n ?r"
    by (rule leN_trans)
  from m(2) r(2) have c: "?r \<in> set (acc # n # ns)"
    by auto
  from r(1) a b c r(4) show ?case
    by simp
qed

lemma foldl_minN:
  "list_all notNaN ns \<Longrightarrow> notNaN acc \<Longrightarrow>
   notNaN (foldl minN acc ns) \<and> foldl minN acc ns \<in> set (acc # ns)
   \<and> leN (foldl minN acc ns) acc \<and> list_all (\<lambda>n. leN (foldl minN acc ns) n) ns"
proof (induction ns arbitrary: acc)
  case Nil
  then show ?case by (cases acc) auto
next
  case (Cons n ns)
  let ?r = "foldl minN (minN acc n) ns"
  from Cons.prems have n: "notNaN n" and ns: "list_all notNaN ns"
    by simp_all
  from Cons.prems(2) n have m: "notNaN (minN acc n)" "minN acc n = acc \<or> minN acc n = n"
    "leN (minN acc n) acc" "leN (minN acc n) n"
    using minN_cases [of acc n] by blast+
  from Cons.IH [OF ns m(1)] have r: "notNaN ?r" "?r \<in> set (minN acc n # ns)"
    "leN ?r (minN acc n)" "list_all (\<lambda>n. leN ?r n) ns"
    by blast+
  from r(3) m(3) have a: "leN ?r acc"
    by (rule leN_trans)
  from r(3) m(4) have b: "leN ?r n"
    by (rule leN_trans)
  from m(2) r(2) have c: "?r \<in> set (acc # n # ns)"
    by auto
  from r(1) a b c r(4) show ?case
    by simp
qed

lemma mathMax_bounds:
  assumes "ns \<noteq> []" "list_all notNaN ns"
  shows "mathMax ns \<in> set ns" and "list_all (\<lambda>n. leN n (mathMax ns)) ns"
proof -
  from foldl_maxN [OF assms(2), of NInf]
  have r: "mathMax ns \<in> set (NInf # ns)" "list_all (\<lambda>n. leN n (mathMax ns)) ns"
    by (simp_all add: mathMax_def)
  show "list_all (\<lambda>n. leN n (mathMax ns)) ns"
    by (rule r(2))
  show "mathMax ns \<in> set ns"
  proof (cases "mathMax ns \<in> set ns")
    case True
    then show ?thesis .
  next
    case False
    with r(1) have e: "mathMax ns = NInf"
      by simp
    from assms(1) obtain n where n: "n \<in> set ns"
      by (cases ns) auto
    with r(2) have "leN n (mathMax ns)"
      by (simp add: list_all_iff)
    with e have "n = NInf"
      by (simp add: leN_NInf)
    with n e show ?thesis
      by simp
  qed
qed

lemma mathMin_bounds:
  assumes "ns \<noteq> []" "list_all notNaN ns"
  shows "mathMin ns \<in> set ns" and "list_all (\<lambda>n. leN (mathMin ns) n) ns"
proof -
  from foldl_minN [OF assms(2), of PInf]
  have r: "mathMin ns \<in> set (PInf # ns)" "list_all (\<lambda>n. leN (mathMin ns) n) ns"
    by (simp_all add: mathMin_def)
  show "list_all (\<lambda>n. leN (mathMin ns) n) ns"
    by (rule r(2))
  show "mathMin ns \<in> set ns"
  proof (cases "mathMin ns \<in> set ns")
    case True
    then show ?thesis .
  next
    case False
    with r(1) have e: "mathMin ns = PInf"
      by simp
    from assms(1) obtain n where n: "n \<in> set ns"
      by (cases ns) auto
    with r(2) have "leN (mathMin ns) n"
      by (simp add: list_all_iff)
    with e have "n = PInf"
      by (simp add: leN_PInf)
    with n e show ?thesis
      by simp
  qed
qed

text \<open>The colour of a lookup whose ratio is 0 / 0, d / d or 0 / d.\<close>

lemma fl_small: "fl 0 = Fin 0" "fl 1 = Fin 1" "fl 255 = Fin 255"
  by code_simp+

lemma color_NaN:
  "toUpperCase (''#'' @ padStart2 (toString16 (mathRound (mulN NaN (Fin 255)))) @ ''00'' @
     padStart2 (toString16 (mathRound (mulN (subN (Fin 1) NaN) (Fin 255))))) = ''#NAN00NAN''"
  by code_simp

lemma color_one:
  "toUpperCase (''#'' @ padStart2 (toString16 (mathRound (mulN (Fin 1) (Fin 255)))) @ ''00'' @
     padStart2 (toString16 (mathRound (mulN (subN (Fin 1) (Fin 1)) (Fin 255))))) = ''#FF0000''"
  by code_simp

lemma divN_self:
  "divN x x = (case x of Fin d \<Rightarrow> if d = 0 then NaN else Fin 1 | _ \<Rightarrow> NaN)"
  by (cases x) (simp_all add: fl_small)

lemma getHeatmapColor_top:
  assumes "getProp ab k = Some (ANum (Fin mx))" "getProp ab ''_max'' = Some (ANum (Fin mx))"
    "getProp ab ''_min'' = Some (ANum (Fin mn))"
  shows "getHeatmapColor ab k =
     (if mx = 0 then ''#FFFFFF''
      else case subN (Fin mx) (Fin mn) of
             Fin d \<Rightarrow> if d = 0 then ''#NAN00NAN'' else ''#FF0000''
           | _ \<Rightarrow> ''#NAN00NAN'')"
proof (cases "mx = 0")
  case True
  with assms(1) show ?thesis
    by (simp add: getHeatmapColor_def)
next
  case False
  let ?d = "subN (Fin mx) (Fin mn)"
  from False assms have c: "getHeatmapColor ab k =
      toUpperCase (''#'' @ padStart2 (toString16 (mathRound (mulN (divN ?d ?d) (Fin 255)))) @ ''00'' @
        padStart2 (toString16 (mathRound (mulN (subN (Fin 1) (divN ?d ?d)) (Fin 255)))))"
    by (simp add: getHeatmapColor_def Let_def)
  show ?thesis
  proof (cases "divN ?d ?d = Fin 1")
    case True
    then obtain d where "?d = Fin d" "d \<noteq> 0"
      by (cases ?d) (auto simp: divN_self split: if_splits)
    with False c True show ?thesis
      by (simp only: color_one ext.case if_False)
  next
    case f: False
    then have n: "divN ?d ?d = NaN"
      by (cases ?d) (auto simp: divN_self split: if_splits)
    from f have "(case ?d of Fin d \<Rightarrow> if d = 0 then ''#NAN00NAN'' else ''#FF0000''
           | _ \<Rightarrow> ''#NAN00NAN'') = ''#NAN00NAN''"
      by (cases ?d) (auto simp: divN_self split: if_splits)
    with False c n show ?thesis
      by (simp only: color_NaN if_False)
  qed
qed

lemma getHeatmapColor_absent: "getProp ab k = None \<Longrightarrow> getHeatmapColor ab k = ''#FFFFFF''"
  by (simp add: getHeatmapColor_def)

lemma createGeneNode_number:
  "getProp ab k = Some (ANum n) \<Longrightarrow> trim d \<noteq> [] \<Longrightarrow>
   createGeneNode ab k d =
     Inr (Some \<lparr>kNumber = k, description = trim d, color = getHeatmapColor ab k, tooltip = Some n\<rparr>)"
  by (simp add: createGeneNode_def Let_def getHeatmapColor_def)

text \<open>The heatmap URL of identifiers that need no escape, as K numbers are.\<close>

lemma utf8_single: "length u = 1 \<Longrightarrow> utf8 (u # us) = u @ utf8 us"
  by (cases us) (auto simp: isHigh_def)

lemma encode_bytes:
  "list_all (\<lambda>c. (of_char c :: nat) < 0xC0) s \<Longrightarrow>
   encodeURIComponent s = concat (map encodeChar s)"
proof -
  assume "list_all (\<lambda>c. (of_char c :: nat) < 0xC0) s"
  then have "utf8 (codeUnits s) = s"
    by (induction s) (simp_all add: utf8_single)
  then show ?thesis
    by (simp add: encodeURIComponent_def)
qed

lemma encode_unreserved: "list_all unreserved k \<Longrightarrow> encodeURIComponent k = k"
proof -
  assume k: "list_all unreserved k"
  then have "list_all (\<lambda>c. (of_char c :: nat) < 0xC0) k"
    by (induction k) (auto simp: unreserved_def)
  then have "encodeURIComponent k = concat (map encodeChar k)"
    by (rule encode_bytes)
  also from k have "\<dots> = k"
    by (induction k) (simp_all add: encodeChar_def)
  finally show ?thesis .
qed

lemma generateHeatmapKEGGUrl_unreserved:
  assumes "list_all (list_all unreserved) ks"
  shows "generateHeatmapKEGGUrl ab mapId ks =
     ''https://www.kegg.jp/kegg-bin/show_pathway?'' @ mapId @ ''/'' @
       join ''/'' (map (\<lambda>k. encodeURIComponent k @ ''%09'' @
                             encodeURIComponent (getHeatmapColor ab k)) ks) @
       ''/default%3d%23FFFFFF''"
proof -
  from assms have m: "map (\<lambda>k. k @ ''%09'' @ encodeURIComponent (getHeatmapColor ab k)) ks =
      map (\<lambda>k. encodeURIComponent k @ ''%09'' @ encodeURIComponent (getHeatmapColor ab k)) ks"
    by (simp add: list_all_iff encode_unreserved)
  show ?thesis
    unfolding generateHeatmapKEGGUrl_def Let_def m by (rule refl)
qed

text \<open>The pathway id pattern.\<close>

lemma matchAll_iff: "matchAll ps s \<longleftrightarrow> list_all2 matchAtom ps s"
  by (induction ps s rule: matchAll.induct) auto

lemma list_all2_Lit: "list_all2 matchAtom (map Lit l) us \<longleftrightarrow> us = l"
  by (induction l arbitrary: us) (auto simp: list_all2_Cons1)

lemma list_all2_AnyDigit:
  "list_all2 matchAtom (replicate n AnyDigit) vs \<longleftrightarrow> length vs = n \<and> list_all isDigit vs"
proof (induction n arbitrary: vs)
  case 0
  then show ?case by auto
next
  case (Suc n)
  then show ?case by (cases vs) auto
qed

lemma testMapId_iff:
  "testMapId s \<longleftrightarrow> (\<exists>ds. s = ''map'' @ ds \<and> length ds = 5 \<and> list_all isDigit ds)"
proof -
  have "testMapId s \<longleftrightarrow>
      (\<exists>us vs. s = us @ vs \<and> length us = 3 \<and> length vs = 5 \<and> us = ''map'' \<and> list_all isDigit vs)"
    unfolding testMapId_def mapIdPattern_def matchAll_iff list_all2_append1 list_all2_Lit
      list_all2_AnyDigit
    by auto
  then show ?thesis by auto
qed

text \<open>The three outcomes of \<open>updateKEGGUrl\<close>, and the rows it maps.\<close>

lemma updateKEGGUrl_reject:
  "\<not> testMapId (trim (pathwayInput pg)) \<Longrightarrow>
   updateKEGGUrl pg =
     Inr (pg\<lparr>keggUrlInput := [], keggLinkHref := ''#'', keggLinkText := [], keggLinkHidden := True,
             messages := (if trim (pathwayInput pg) = [] then messages pg
                          else messages pg @
                            [(''Invalid pathway ID. Must be in format map00000'', ''error'')])\<rparr>)"
  by (simp add: updateKEGGUrl_def Let_def displayMessage_def)

lemma updateKEGGUrl_empty:
  "testMapId (trim (pathwayInput pg)) \<Longrightarrow> colorSelection pg = [] \<Longrightarrow>
   updateKEGGUrl pg =
     Inr (pg\<lparr>messages := messages pg @ [(''Please add at least one K number'', ''error'')]\<rparr>)"
  by (simp add: updateKEGGUrl_def Let_def displayMessage_def)

lemma updateKEGGUrl_accept:
  "testMapId (trim (pathwayInput pg)) \<Longrightarrow> colorSelection pg \<noteq> [] \<Longrightarrow>
   updateKEGGUrl pg =
     (case mapQueryPart (colorSelection pg) of
        Inl e \<Rightarrow> Inl e
      | Inr qs \<Rightarrow>
          Inr (pg\<lparr>keggUrlInput := ''https://www.kegg.jp/kegg-bin/show_pathway?'' @
                     trim (pathwayInput pg) @ ''/'' @ join ''/'' qs @ ''/default%3d%23FFFFFF'',
                  keggLinkHref := ''https://www.kegg.jp/kegg-bin/show_pathway?'' @
                     trim (pathwayInput pg) @ ''/'' @ join ''/'' qs @ ''/default%3d%23FFFFFF'',
                  keggLinkText := ''Open KEGG Map'', keggLinkHidden := False\<rparr>))"
  by (simp add: updateKEGGUrl_def Let_def split: sum.splits)

lemma colorSelection_updateKEGGUrl:
  "updateKEGGUrl pg = Inr pg' \<Longrightarrow> colorSelection pg' = colorSelection pg"
  by (auto simp: updateKEGGUrl_def displayMessage_def Let_def split: if_splits sum.splits)

lemma mapQueryPart_wellFormed:
  "list_all wellFormed rows \<Longrightarrow>
   mapQueryPart rows =
     Inr (map (\<lambda>e. encodeURIComponent (trim (ecNumber e)) @ ''%09'' @ replaceHash (bgcolor e) @
                     '','' @ replaceHash (fgcolor e)) rows)"
  by (induction rows) (simp_all add: queryPart_def wellFormed_def Let_def)

lemma uriError_eq: "(e :: uriError) = URIError \<longleftrightarrow> True"
  by (cases e) simp

lemma mapQueryPart_URIError:
  "\<not> list_all wellFormed rows \<Longrightarrow> mapQueryPart rows = Inl URIError"
  by (induction rows) (auto simp: queryPart_def wellFormed_def Let_def uriError_eq split: sum.splits)

text \<open>The colours of a colour field, where \<open>#\<close> is the one character that is escaped.\<close>

lemma encode_hex: "list_all isHexDigit t \<Longrightarrow> encodeURIComponent t = t"
proof -
  assume t: "list_all isHexDigit t"
  then have "list_all (\<lambda>c. (of_char c :: nat) < 0xC0) t"
    by (induction t) (auto simp: isHexDigit_def)
  then have "encodeURIComponent t = concat (map encodeChar t)"
    by (rule encode_bytes)
  also from t have "\<dots> = t"
    by (induction t) (auto simp: encodeChar_def isHexDigit_def unreserved_def)
  finally show ?thesis .
qed

lemma replaceHash_simple: "isSimpleColor s \<Longrightarrow> replaceHash s = encodeURIComponent s"
proof -
  assume h: "isSimpleColor s"
  then obtain t where s: "s = CHR ''#'' # t" and t: "list_all isHexDigit t"
    by (cases s) (auto simp: isSimpleColor_def)
  have "encodeURIComponent s = ''%23'' @ encodeURIComponent t"
    by (simp add: s encodeURIComponent_def encodeChar_def unreserved_def hexUpper_def
        isHigh_def isLow_def utf8_single)
  with t show ?thesis
    by (simp add: s encode_hex)
qed

lemma colorField_simple: "colorField c \<Longrightarrow> isSimpleColor c"
proof (rule ccontr)
  assume f: "colorField c" and n: "\<not> isSimpleColor c"
  then have "c = ''#000000''"
    by (simp add: colorField_def colorValue_def)
  moreover have "isSimpleColor ''#000000''"
    by code_simp
  ultimately show False
    using n by simp
qed

text \<open>
  Every colour that \<open>addECToCustomURL\<close> puts into a row is the value of a colour field,
  so the rows of the panel have colour fields as long as the script alone adds them.
\<close>

lemma lowerChar_hex:
  "isHexDigit c \<Longrightarrow> isHexDigit (lowerChar c) \<and> lowerChar (lowerChar c) = lowerChar c"
proof -
  assume "isHexDigit c"
  then have c: "c \<in> set ''0123456789abcdefABCDEF''"
    by (simp only: isHexDigit_def)
  have "list_all (\<lambda>c. isHexDigit (lowerChar c) \<and> lowerChar (lowerChar c) = lowerChar c)
          ''0123456789abcdefABCDEF''"
    by code_simp
  with c show ?thesis
    unfolding list_all_iff by blast
qed

lemma asciiLower_hex:
  "list_all isHexDigit t \<Longrightarrow>
   list_all isHexDigit (asciiLower t) \<and> asciiLower (asciiLower t) = asciiLower t"
  by (induction t) (simp_all add: asciiLower_def lowerChar_hex)

lemma colorValue_colorField: "colorField (colorValue v)"
proof (cases "isSimpleColor v")
  case True
  then obtain t where v: "v = CHR ''#'' # t" and l: "length t = 6" and t: "list_all isHexDigit t"
    by (cases v) (auto simp: isSimpleColor_def)
  have h: "lowerChar CHR ''#'' = CHR ''#''"
    by code_simp
  from asciiLower_hex [OF t] have t': "list_all isHexDigit (map lowerChar t)"
    "map lowerChar (map lowerChar t) = map lowerChar t"
    by (simp_all only: asciiLower_def)
  from l t'(1) have "isSimpleColor (asciiLower v)"
    by (simp add: v asciiLower_def h isSimpleColor_def)
  moreover from t'(2) have "asciiLower (asciiLower v) = asciiLower v"
    by (simp add: v asciiLower_def h)
  ultimately show ?thesis
    using True by (simp add: colorField_def colorValue_def)
next
  case False
  have "colorValue ''#000000'' = ''#000000''"
    by code_simp
  with False show ?thesis
    by (simp add: colorField_def colorValue_def)
qed

lemma addECToCustomURL_colorFields:
  assumes "addECToCustomURL pg k bg fg = Some (Inr pg')"
    and "list_all colorFields (colorSelection pg)"
  shows "list_all colorFields (colorSelection pg')"
proof (cases "list_ex (\<lambda>input. ecNumber input = k) (colorSelection pg)")
  case True
  with assms show ?thesis
    by (simp add: addECToCustomURL_def)
next
  case False
  with assms(1) obtain n b f where
    "updateKEGGUrl (pg\<lparr>colorSelection := colorSelection pg @
        [\<lparr>ecNumber = n, bgcolor = colorValue b, fgcolor = colorValue f\<rparr>]\<rparr>) = Inr pg'"
    by (auto simp: addECToCustomURL_def split: option.splits)
  then have "colorSelection pg' = colorSelection pg @
      [\<lparr>ecNumber = n, bgcolor = colorValue b, fgcolor = colorValue f\<rparr>]"
    by (simp add: colorSelection_updateKEGGUrl)
  with assms(2) show ?thesis
    by (simp add: colorFields_def colorValue_colorField)
qed

text \<open>A second call of \<open>addECToCustomURL\<close> with an identifier that the markup leaves as it is.\<close>

lemma addECToCustomURL_plain_identifier:
  assumes "attrValue k = Some k" "textValue k = k"
    and "addECToCustomURL pg k bg fg = Some (Inr pg')"
  shows "addECToCustomURL pg' k bg' fg' = Some (Inr pg')"
proof (cases "list_ex (\<lambda>input. ecNumber input = k) (colorSelection pg)")
  case True
  with assms(3) have "pg' = pg"
    by (simp add: addECToCustomURL_def)
  with True show ?thesis
    by (simp add: addECToCustomURL_def)
next
  case False
  with assms obtain b f where
    "updateKEGGUrl (pg\<lparr>colorSelection := colorSelection pg @
        [\<lparr>ecNumber = k, bgcolor = b, fgcolor = f\<rparr>]\<rparr>) = Inr pg'"
    by (auto simp: addECToCustomURL_def split: option.splits)
  then have "colorSelection pg' = colorSelection pg @ [\<lparr>ecNumber = k, bgcolor = b, fgcolor = f\<rparr>]"
    by (simp add: colorSelection_updateKEGGUrl)
  then show ?thesis
    by (simp add: addECToCustomURL_def)
qed










subsection \<open>The abundance index and the heatmap colour\<close>

text \<open>
  Claim C2 says that \<open>colorFor\<close> gives the neutral \<open>#FFFFFF\<close> exactly for an identifier
  absent from the index, and the gradient colour for every identifier present, one with
  score 0 included. \<open>getHeatmapColor\<close> tests the score for truthiness instead. In the
  index with K00001 at 0 and K00002 at 10, K00001 is present with the least score, whose
  gradient colour is \<open>#0000FF\<close>; the function gives \<open>#FFFFFF\<close>. \<open>createGeneNode\<close> tests
  \<open>!== undefined\<close> for the tooltip, so the same gene node shows the score 0 beside the
  colour of an absent gene. (A lookup that is \<open>undefined\<close> does get \<open>#FFFFFF\<close>, lemma
  \<open>getHeatmapColor_absent\<close>.)
\<close>

theorem getHeatmapColor_zero_score:
  "getProp (loadJSON [(''K00001'', ANum (Fin 0)), (''K00002'', ANum (Fin 10))]) ''K00001''
     = Some (ANum (Fin 0))
   \<and> getHeatmapColor (loadJSON [(''K00001'', ANum (Fin 0)), (''K00002'', ANum (Fin 10))])
       ''K00001'' = ''#FFFFFF''
   \<and> getHeatmapColor (loadJSON [(''K00001'', ANum (Fin 0)), (''K00002'', ANum (Fin 10))])
       ''K00002'' = ''#FF0000''
   \<and> createGeneNode (loadJSON [(''K00001'', ANum (Fin 0)), (''K00002'', ANum (Fin 10))])
       ''K00001'' ''alcohol dehydrogenase''
     = Inr (Some \<lparr>kNumber = ''K00001'', description = ''alcohol dehydrogenase'',
                  color = ''#FFFFFF'', tooltip = Some (Fin 0)\<rparr>)"
  by code_simp

text \<open>
  Claim C3 says that with a single distinct value in the index (\<open>_max\<close> equal to
  \<open>_min\<close>) the colour of a present identifier is a valid hex colour, red 0 and blue
  255. The ratio is then 0 / 0, which is NaN, and both channels are printed as the text
  \<open>NaN\<close>: the result is \<open>#NAN00NAN\<close>, which has no red or blue channel.
\<close>

theorem getHeatmapColor_single_value:
  "getHeatmapColor (loadJSON [(''K00001'', ANum (Fin 5))]) ''K00001'' = ''#NAN00NAN''
   \<and> redChannel ''#NAN00NAN'' = None \<and> blueChannel ''#NAN00NAN'' = None
   \<and> getHeatmapColor (loadJSON [(''K00001'', ANum (Fin 5)), (''K00002'', ANum (Fin 5))])
       ''K00002'' = ''#NAN00NAN''"
  by code_simp

text \<open>
  Claim C6 says that the red channel grows and the blue channel falls with the score.
  With the scores 0, 5 and 10 the gene at 0 gets \<open>#FFFFFF\<close> (red 255) and the gene at 5
  gets \<open>#800080\<close> (red 128): the smaller score has the larger red channel. With the
  scores -10, -5 and 0 the gene at -5 has blue 128 and the gene at 0 has blue 255: the
  smaller score has the smaller blue channel. Both come from the truthiness test on the
  score 0.
\<close>

theorem getHeatmapColor_not_monotonic:
  "redChannel (getHeatmapColor
      (loadJSON [(''K00001'', ANum (Fin 0)), (''K00002'', ANum (Fin 5)), (''K00003'', ANum (Fin 10))])
      ''K00001'') = Some 255
   \<and> redChannel (getHeatmapColor
      (loadJSON [(''K00001'', ANum (Fin 0)), (''K00002'', ANum (Fin 5)), (''K00003'', ANum (Fin 10))])
      ''K00002'') = Some 128
   \<and> blueChannel (getHeatmapColor
      (loadJSON [(''K00001'', ANum (Fin (- 10))), (''K00002'', ANum (Fin (- 5))), (''K00003'', ANum (Fin 0))])
      ''K00002'') = Some 128
   \<and> blueChannel (getHeatmapColor
      (loadJSON [(''K00001'', ANum (Fin (- 10))), (''K00002'', ANum (Fin (- 5))), (''K00003'', ANum (Fin 0))])
      ''K00003'') = Some 255"
  by code_simp

text \<open>
  Claim C9: \<open>loadJSON\<close> stores the bounds in the index itself. After it \<open>_max\<close> and
  \<open>_min\<close> are own keys of the index (its last two entries, when the document has
  neither key), and every other lookup gives what it gave before.
  Without a numeric value the two keys hold -Infinity and Infinity. With numeric values
  (none of them NaN, which no JSON document has) \<open>_max\<close> holds one of them that is not
  below any of them, and \<open>_min\<close> one that is not above any of them. A lookup of \<open>_max\<close>
  is treated as the score of a gene: \<open>getHeatmapColor\<close> gives it \<open>#FFFFFF\<close> when the
  maximum is 0, \<open>#NAN00NAN\<close> when the difference of the bounds is 0 or not finite, and
  the colour of the ratio 1, \<open>#FF0000\<close>, otherwise; and a gene node for the key \<open>_max\<close>
  shows the maximum in its tooltip.
\<close>

theorem loadJSON_bounds_in_index:
  "''_max'' \<in> set (map fst (loadJSON a)) \<and> ''_min'' \<in> set (map fst (loadJSON a))
   \<and> (''_max'' \<notin> set (map fst a) \<and> ''_min'' \<notin> set (map fst a) \<longrightarrow>
        (\<exists>mx mn. loadJSON a = a @ [(''_max'', ANum mx), (''_min'', ANum mn)]))
   \<and> (k \<noteq> ''_max'' \<and> k \<noteq> ''_min'' \<longrightarrow> getProp (loadJSON a) k = getProp a k)
   \<and> ((\<forall>k n. (k, ANum n) \<notin> set a) \<longrightarrow>
        getProp (loadJSON a) ''_max'' = Some (ANum NInf)
        \<and> getProp (loadJSON a) ''_min'' = Some (ANum PInf)
        \<and> getHeatmapColor (loadJSON a) ''_max'' = ''#NAN00NAN'')
   \<and> ((\<exists>k n. (k, ANum n) \<in> set a) \<and> (\<forall>k. (k, ANum NaN) \<notin> set a) \<longrightarrow>
        (\<exists>mx mn. getProp (loadJSON a) ''_max'' = Some (ANum mx)
           \<and> getProp (loadJSON a) ''_min'' = Some (ANum mn)
           \<and> (\<exists>k. (k, ANum mx) \<in> set a) \<and> (\<exists>k. (k, ANum mn) \<in> set a)
           \<and> (\<forall>k n. (k, ANum n) \<in> set a \<longrightarrow> leN n mx \<and> leN mn n)))
   \<and> (getProp (loadJSON a) ''_max'' = Some (ANum (Fin mx))
      \<and> getProp (loadJSON a) ''_min'' = Some (ANum (Fin mn)) \<longrightarrow>
        getHeatmapColor (loadJSON a) ''_max'' =
          (if mx = 0 then ''#FFFFFF''
           else case subN (Fin mx) (Fin mn) of
                  Fin d \<Rightarrow> if d = 0 then ''#NAN00NAN'' else ''#FF0000''
                | _ \<Rightarrow> ''#NAN00NAN'')
        \<and> (trim d \<noteq> [] \<longrightarrow>
             createGeneNode (loadJSON a) ''_max'' d =
               Inr (Some \<lparr>kNumber = ''_max'', description = trim d,
                          color = getHeatmapColor (loadJSON a) ''_max'',
                          tooltip = Some (Fin mx)\<rparr>)))"
proof -
  have none: "getProp (loadJSON a) ''_max'' = Some (ANum NInf)
        \<and> getProp (loadJSON a) ''_min'' = Some (ANum PInf)
        \<and> getHeatmapColor (loadJSON a) ''_max'' = ''#NAN00NAN''"
    if "\<forall>k n. (k, ANum n) \<notin> set a"
  proof -
    from that have e: "numbersOf a = []"
      by (rule numbersOf_empty)
    have g: "getProp (loadJSON a) ''_max'' = Some (ANum NInf)"
      "getProp (loadJSON a) ''_min'' = Some (ANum PInf)"
      by (simp_all add: loaded_max loaded_min e mathMax_def mathMin_def)
    have "getHeatmapColor (loadJSON a) ''_max'' =
        toUpperCase (''#'' @ padStart2 (toString16 (mathRound (mulN NaN (Fin 255)))) @ ''00'' @
          padStart2 (toString16 (mathRound (mulN (subN (Fin 1) NaN) (Fin 255)))))"
      by (simp add: getHeatmapColor_def Let_def g)
    with g show ?thesis
      by (simp only: color_NaN)
  qed
  have some: "\<exists>mx mn. getProp (loadJSON a) ''_max'' = Some (ANum mx)
           \<and> getProp (loadJSON a) ''_min'' = Some (ANum mn)
           \<and> (\<exists>k. (k, ANum mx) \<in> set a) \<and> (\<exists>k. (k, ANum mn) \<in> set a)
           \<and> (\<forall>k n. (k, ANum n) \<in> set a \<longrightarrow> leN n mx \<and> leN mn n)"
    if n: "\<exists>k n. (k, ANum n) \<in> set a" and f: "\<forall>k. (k, ANum NaN) \<notin> set a"
  proof -
    let ?ns = "numbersOf a"
    from n have ne: "?ns \<noteq> []"
      using numbersOf_set [of _ a] by fastforce
    have "notNaN x" if "x \<in> set ?ns" for x
    proof -
      from that obtain k where "(k, ANum x) \<in> set a"
        by (auto simp: numbersOf_set)
      with f have "x \<noteq> NaN"
        by auto
      then show ?thesis
        by (cases x) simp_all
    qed
    then have nn: "list_all notNaN ?ns"
      by (simp add: list_all_iff)
    from mathMax_bounds [OF ne nn] mathMin_bounds [OF ne nn]
    have b: "\<exists>k. (k, ANum (mathMax ?ns)) \<in> set a" "\<exists>k. (k, ANum (mathMin ?ns)) \<in> set a"
      "\<forall>k n. (k, ANum n) \<in> set a \<longrightarrow> leN n (mathMax ?ns) \<and> leN (mathMin ?ns) n"
      using numbersOf_set [of _ a] by (auto simp: list_all_iff)
    with loaded_max [of a] loaded_min [of a] show ?thesis
      by blast
  qed
  have top: "getHeatmapColor (loadJSON a) ''_max'' =
          (if mx = 0 then ''#FFFFFF''
           else case subN (Fin mx) (Fin mn) of
                  Fin d \<Rightarrow> if d = 0 then ''#NAN00NAN'' else ''#FF0000''
                | _ \<Rightarrow> ''#NAN00NAN'')
        \<and> (trim d \<noteq> [] \<longrightarrow>
             createGeneNode (loadJSON a) ''_max'' d =
               Inr (Some \<lparr>kNumber = ''_max'', description = trim d,
                          color = getHeatmapColor (loadJSON a) ''_max'',
                          tooltip = Some (Fin mx)\<rparr>))"
    if g: "getProp (loadJSON a) ''_max'' = Some (ANum (Fin mx))"
      "getProp (loadJSON a) ''_min'' = Some (ANum (Fin mn))"
    using getHeatmapColor_top [OF g(1) g(1) g(2)] createGeneNode_number [OF g(1), of d]
    by blast
  have new: "\<exists>mx mn. loadJSON a = a @ [(''_max'', ANum mx), (''_min'', ANum mn)]"
    if "''_max'' \<notin> set (map fst a)" "''_min'' \<notin> set (map fst a)"
    using that by (simp add: loadJSON_def Let_def setProp_new)
  from none some top new loaded_keys [of a] loaded_other [of k a] show ?thesis
    by blast
qed

theorem loadJSON_bounds_in_index_witness:
  "loadJSON [(''K00001'', ANum (Fin 3)), (''K00002'', ANum (Fin 1)), (''K00003'', ANum (Fin 2))]
     = [(''K00001'', ANum (Fin 3)), (''K00002'', ANum (Fin 1)), (''K00003'', ANum (Fin 2)),
        (''_max'', ANum (Fin 3)), (''_min'', ANum (Fin 1))]
   \<and> getProp (loadJSON [(''K00001'', ANum (Fin 3)), (''K00002'', ANum (Fin 1)),
                      (''K00003'', ANum (Fin 2))]) ''_max'' = Some (ANum (Fin 3))
   \<and> getProp (loadJSON [(''K00001'', ANum (Fin 3)), (''K00002'', ANum (Fin 1)),
                        (''K00003'', ANum (Fin 2))]) ''_min'' = Some (ANum (Fin 1))
   \<and> getProp (loadJSON [(''K00001'', ANum (Fin 3)), (''K00002'', ANum (Fin 1)),
                        (''K00003'', ANum (Fin 2))]) ''K00003'' = Some (ANum (Fin 2))
   \<and> leN (Fin 2) (Fin 3) \<and> leN (Fin 1) (Fin 2)
   \<and> getHeatmapColor (loadJSON [(''K00001'', ANum (Fin 3)), (''K00002'', ANum (Fin 1)),
                               (''K00003'', ANum (Fin 2))]) ''_max'' = ''#FF0000''
   \<and> createGeneNode (loadJSON [(''K00001'', ANum (Fin 3)), (''K00002'', ANum (Fin 1)),
                              (''K00003'', ANum (Fin 2))]) ''_max'' '' upper bound ''
       = Inr (Some \<lparr>kNumber = ''_max'', description = ''upper bound'', color = ''#FF0000'',
                    tooltip = Some (Fin 3)\<rparr>)
   \<and> getProp (loadJSON [(''K00001'', ANull)]) ''_max'' = Some (ANum NInf)
   \<and> getProp (loadJSON [(''K00001'', ANull)]) ''_min'' = Some (ANum PInf)
   \<and> getHeatmapColor (loadJSON [(''K00001'', ANull)]) ''_max'' = ''#NAN00NAN''
   \<and> getHeatmapColor (loadJSON [(''K00001'', ANum (Fin 5))]) ''_max'' = ''#NAN00NAN''
   \<and> getHeatmapColor (loadJSON [(''K00001'', ANum (Fin 0)), (''K00002'', ANum (Fin (- 2)))])
        ''_max'' = ''#FFFFFF''"
proof -
  let ?a = "[(''K00001'', ANum (Fin 3)), (''K00002'', ANum (Fin 1)), (''K00003'', ANum (Fin 2))]"
  let ?b = "[(''K00001'', ANum (Fin 5))]"
  let ?c = "[(''K00001'', ANum (Fin 0)), (''K00002'', ANum (Fin (- 2)))]"
  have a: "getProp (loadJSON ?a) ''_max'' = Some (ANum (Fin 3))"
    "getProp (loadJSON ?a) ''_min'' = Some (ANum (Fin 1))"
    "getProp ?a ''K00003'' = Some (ANum (Fin 2))"
    by code_simp+
  have b: "getProp (loadJSON ?b) ''_max'' = Some (ANum (Fin 5))"
    "getProp (loadJSON ?b) ''_min'' = Some (ANum (Fin 5))"
    by code_simp+
  have c: "getProp (loadJSON ?c) ''_max'' = Some (ANum (Fin 0))"
    "getProp (loadJSON ?c) ''_min'' = Some (ANum (Fin (- 2)))"
    by code_simp+
  have s: "fl 2 = Fin 2" "fl 0 = Fin 0"
    by code_simp+
  have k: "''_max'' \<notin> set (map fst ?a)" "''_min'' \<notin> set (map fst ?a)"
    by simp_all
  have 0: "loadJSON ?a = ?a @ [(''_max'', ANum (Fin 3)), (''_min'', ANum (Fin 1))]"
  proof -
    from loadJSON_bounds_in_index [of ?a "''K00003''" 3 1 "'' upper bound ''"]
    have "''_max'' \<notin> set (map fst ?a) \<and> ''_min'' \<notin> set (map fst ?a) \<longrightarrow>
        (\<exists>mx mn. loadJSON ?a = ?a @ [(''_max'', ANum mx), (''_min'', ANum mn)])"
      by (rule conjunct1 [OF conjunct2 [OF conjunct2]])
    with k obtain mx mn
      where l: "loadJSON ?a = ?a @ [(''_max'', ANum mx), (''_min'', ANum mn)]"
      by blast
    with a(1,2) have "mx = Fin 3" "mn = Fin 1"
      by (simp_all add: getProp_def)
    with l show ?thesis
      by simp
  qed
  have b: "leN (Fin 2) (Fin 3) \<and> leN (Fin 1) (Fin 2)"
  proof -
    have "(\<exists>k n. (k, ANum n) \<in> set ?a) \<and> (\<forall>k. (k, ANum NaN) \<notin> set ?a)"
      by auto
    moreover from loadJSON_bounds_in_index [of ?a "''K00003''" 3 1 "'' upper bound ''"]
    have "(\<exists>k n. (k, ANum n) \<in> set ?a) \<and> (\<forall>k. (k, ANum NaN) \<notin> set ?a) \<longrightarrow>
        (\<exists>mx mn. getProp (loadJSON ?a) ''_max'' = Some (ANum mx)
           \<and> getProp (loadJSON ?a) ''_min'' = Some (ANum mn)
           \<and> (\<exists>k. (k, ANum mx) \<in> set ?a) \<and> (\<exists>k. (k, ANum mn) \<in> set ?a)
           \<and> (\<forall>k n. (k, ANum n) \<in> set ?a \<longrightarrow> leN n mx \<and> leN mn n))"
      by (rule conjunct1 [OF conjunct2 [OF conjunct2 [OF conjunct2 [OF conjunct2 [OF conjunct2]]]]])
    ultimately obtain mx mn where m: "getProp (loadJSON ?a) ''_max'' = Some (ANum mx)"
      "getProp (loadJSON ?a) ''_min'' = Some (ANum mn)"
      "\<forall>k n. (k, ANum n) \<in> set ?a \<longrightarrow> leN n mx \<and> leN mn n"
      by blast
    from m(1,2) a(1,2) have "mx = Fin 3" "mn = Fin 1"
      by simp_all
    moreover have "(''K00003'', ANum (Fin 2)) \<in> set ?a"
      by simp
    ultimately show ?thesis
      using m(3) by blast
  qed
  have t: "trim '' upper bound '' = ''upper bound''"
    by code_simp
  have 1: "getProp (loadJSON ?a) ''K00003'' = Some (ANum (Fin 2))
      \<and> getHeatmapColor (loadJSON ?a) ''_max'' = ''#FF0000''
      \<and> createGeneNode (loadJSON ?a) ''_max'' '' upper bound ''
       = Inr (Some \<lparr>kNumber = ''_max'', description = ''upper bound'', color = ''#FF0000'',
                    tooltip = Some (Fin 3)\<rparr>)"
    using a loadJSON_bounds_in_index [of ?a "''K00003''" 3 1 "'' upper bound ''"]
    by (simp add: s t)
  have 2: "getProp (loadJSON [(''K00001'', ANull)]) ''_max'' = Some (ANum NInf)
      \<and> getProp (loadJSON [(''K00001'', ANull)]) ''_min'' = Some (ANum PInf)
      \<and> getHeatmapColor (loadJSON [(''K00001'', ANull)]) ''_max'' = ''#NAN00NAN''"
    using loadJSON_bounds_in_index [of "[(''K00001'', ANull)]"]
    by simp
  have 3: "getHeatmapColor (loadJSON ?b) ''_max'' = ''#NAN00NAN''"
    using b loadJSON_bounds_in_index [of ?b _ 5 5]
    by (simp add: s)
  have 4: "getHeatmapColor (loadJSON ?c) ''_max'' = ''#FFFFFF''"
    using c loadJSON_bounds_in_index [of ?c _ 0 "- 2"]
    by simp
  from 0 have "loadJSON ?a = [(''K00001'', ANum (Fin 3)), (''K00002'', ANum (Fin 1)),
      (''K00003'', ANum (Fin 2)), (''_max'', ANum (Fin 3)), (''_min'', ANum (Fin 1))]"
    by simp
  with a(1,2) b 1 2 3 4 show ?thesis
    by blast
qed

subsection \<open>The heatmap URL\<close>

text \<open>
  Claim C8 says that each segment of the heatmap URL is the percent-encoded identifier,
  \<open>%09\<close> and the percent-encoded colour. \<open>generateHeatmapKEGGUrl\<close> encodes the colour
  and inserts the identifier as it is, where \<open>updateKEGGUrl\<close> encodes the identifier: an
  identifier with a space keeps the space. (For identifiers of unreserved characters
  only, as K numbers are, the two agree, lemma \<open>generateHeatmapKEGGUrl_unreserved\<close>.)
\<close>

theorem generateHeatmapKEGGUrl_raw_identifier:
  "generateHeatmapKEGGUrl
     (loadJSON [(''K00844 HK'', ANum (Fin 2)), (''K00845'', ANum (Fin 1))])
     ''map00010'' [''K00844 HK'']
     = ''https://www.kegg.jp/kegg-bin/show_pathway?map00010/K00844 HK%09%23FF0000/default%3d%23FFFFFF''
   \<and> encodeURIComponent ''K00844 HK'' = ''K00844%20HK''"
  by code_simp

subsection \<open>The customisation panel\<close>

text \<open>
  Claim C4, amended: with the pathway id \<open>map00010\<close> and the row added for K00001 with
  \<open>#FF0000\<close> and \<open>#FFFFFF\<close>, the URL is
  \<open>https://www.kegg.jp/kegg-bin/show_pathway?map00010/K00001%09%23ff0000,%23ffffff/default%3d%23FFFFFF\<close>.
  In general, when the trimmed pathway id is valid and there is at least one row, the
  colours of the rows being values of colour fields and the trimmed identifiers having
  no lone surrogate, the URL is the endpoint, the trimmed pathway id, \<open>/\<close>, then for
  each row in document order the percent-encoded trimmed identifier, \<open>%09\<close>, the
  percent-encoded background, a comma and the percent-encoded foreground, the rows
  joined by \<open>/\<close>, then \<open>/default%3d%23FFFFFF\<close>; the link gets the same URL and is shown.
  (The script escapes the \<open>#\<close> of a colour, which on the value of a colour field is its
  percent-encoding.)
\<close>

theorem updateKEGGUrl_grammar:
  "map_option (map_sum id keggUrlInput)
     (addECToCustomURL (loadedPage\<lparr>pathwayInput := ''map00010''\<rparr>) ''K00001''
        (Some ''#FF0000'') (Some ''#FFFFFF''))
     = Some (Inr ''https://www.kegg.jp/kegg-bin/show_pathway?map00010/K00001%09%23ff0000,%23ffffff/default%3d%23FFFFFF'')
   \<and> (testMapId (trim (pathwayInput pg)) \<and> colorSelection pg \<noteq> []
        \<and> list_all colorFields (colorSelection pg) \<and> list_all wellFormed (colorSelection pg) \<longrightarrow>
        updateKEGGUrl pg =
          Inr (pg\<lparr>keggUrlInput :=
                   ''https://www.kegg.jp/kegg-bin/show_pathway?'' @ trim (pathwayInput pg) @ ''/'' @
                   join ''/'' (map (\<lambda>e. encodeURIComponent (trim (ecNumber e)) @ ''%09'' @
                                         encodeURIComponent (bgcolor e) @ '','' @
                                         encodeURIComponent (fgcolor e)) (colorSelection pg)) @
                   ''/default%3d%23FFFFFF'',
                 keggLinkHref :=
                   ''https://www.kegg.jp/kegg-bin/show_pathway?'' @ trim (pathwayInput pg) @ ''/'' @
                   join ''/'' (map (\<lambda>e. encodeURIComponent (trim (ecNumber e)) @ ''%09'' @
                                         encodeURIComponent (bgcolor e) @ '','' @
                                         encodeURIComponent (fgcolor e)) (colorSelection pg)) @
                   ''/default%3d%23FFFFFF'',
                 keggLinkText := ''Open KEGG Map'', keggLinkHidden := False\<rparr>))"
proof -
  have example: "map_option (map_sum id keggUrlInput)
     (addECToCustomURL (loadedPage\<lparr>pathwayInput := ''map00010''\<rparr>) ''K00001''
        (Some ''#FF0000'') (Some ''#FFFFFF''))
     = Some (Inr ''https://www.kegg.jp/kegg-bin/show_pathway?map00010/K00001%09%23ff0000,%23ffffff/default%3d%23FFFFFF'')"
    by code_simp
  have general: "updateKEGGUrl pg =
          Inr (pg\<lparr>keggUrlInput :=
                   ''https://www.kegg.jp/kegg-bin/show_pathway?'' @ trim (pathwayInput pg) @ ''/'' @
                   join ''/'' (map (\<lambda>e. encodeURIComponent (trim (ecNumber e)) @ ''%09'' @
                                         encodeURIComponent (bgcolor e) @ '','' @
                                         encodeURIComponent (fgcolor e)) (colorSelection pg)) @
                   ''/default%3d%23FFFFFF'',
                 keggLinkHref :=
                   ''https://www.kegg.jp/kegg-bin/show_pathway?'' @ trim (pathwayInput pg) @ ''/'' @
                   join ''/'' (map (\<lambda>e. encodeURIComponent (trim (ecNumber e)) @ ''%09'' @
                                         encodeURIComponent (bgcolor e) @ '','' @
                                         encodeURIComponent (fgcolor e)) (colorSelection pg)) @
                   ''/default%3d%23FFFFFF'',
                 keggLinkText := ''Open KEGG Map'', keggLinkHidden := False\<rparr>)"
    if a: "testMapId (trim (pathwayInput pg))" and b: "colorSelection pg \<noteq> []"
      and c: "list_all colorFields (colorSelection pg)"
      and d: "list_all wellFormed (colorSelection pg)"
  proof -
    from c have m: "map (\<lambda>e. encodeURIComponent (trim (ecNumber e)) @ ''%09'' @
                              replaceHash (bgcolor e) @ '','' @ replaceHash (fgcolor e))
                      (colorSelection pg) =
        map (\<lambda>e. encodeURIComponent (trim (ecNumber e)) @ ''%09'' @ encodeURIComponent (bgcolor e) @
                  '','' @ encodeURIComponent (fgcolor e)) (colorSelection pg)"
      by (auto simp: list_all_iff colorFields_def colorField_simple replaceHash_simple)
    show ?thesis
      unfolding updateKEGGUrl_accept [OF a b] mapQueryPart_wellFormed [OF d] m
      by simp
  qed
  from example general show ?thesis
    by blast
qed

theorem updateKEGGUrl_grammar_witness:
  "updateKEGGUrl (loadedPage\<lparr>pathwayInput := ''map00020 '',
       colorSelection := [\<lparr>ecNumber = '' K00001'', bgcolor = ''#ff0000'', fgcolor = ''#ffffff''\<rparr>,
                          \<lparr>ecNumber = ''K 2'', bgcolor = ''#00ff00'', fgcolor = ''#000000''\<rparr>]\<rparr>)
     = Inr (loadedPage\<lparr>pathwayInput := ''map00020 '',
       colorSelection := [\<lparr>ecNumber = '' K00001'', bgcolor = ''#ff0000'', fgcolor = ''#ffffff''\<rparr>,
                          \<lparr>ecNumber = ''K 2'', bgcolor = ''#00ff00'', fgcolor = ''#000000''\<rparr>],
       keggUrlInput := ''https://www.kegg.jp/kegg-bin/show_pathway?map00020/K00001%09%23ff0000,%23ffffff/K%202%09%2300ff00,%23000000/default%3d%23FFFFFF'',
       keggLinkHref := ''https://www.kegg.jp/kegg-bin/show_pathway?map00020/K00001%09%23ff0000,%23ffffff/K%202%09%2300ff00,%23000000/default%3d%23FFFFFF'',
       keggLinkText := ''Open KEGG Map'', keggLinkHidden := False\<rparr>)"
proof -
  let ?rows = "[\<lparr>ecNumber = '' K00001'', bgcolor = ''#ff0000'', fgcolor = ''#ffffff''\<rparr>,
                \<lparr>ecNumber = ''K 2'', bgcolor = ''#00ff00'', fgcolor = ''#000000''\<rparr>]"
  let ?pg = "loadedPage\<lparr>pathwayInput := ''map00020 '', colorSelection := ?rows\<rparr>"
  have t: "trim ''map00020 '' = ''map00020''" "trim '' K00001'' = ''K00001''" "trim ''K 2'' = ''K 2''"
    by code_simp+
  have a: "testMapId ''map00020''"
    by code_simp
  have c: "list_all colorFields ?rows"
    by code_simp
  have d: "list_all wellFormed ?rows"
    by code_simp
  have e: "encodeURIComponent ''K00001'' = ''K00001''" "encodeURIComponent ''K 2'' = ''K%202''"
    "encodeURIComponent ''#ff0000'' = ''%23ff0000''" "encodeURIComponent ''#ffffff'' = ''%23ffffff''"
    "encodeURIComponent ''#00ff00'' = ''%2300ff00''" "encodeURIComponent ''#000000'' = ''%23000000''"
    by code_simp+
  from a c d updateKEGGUrl_grammar [of ?pg] show ?thesis
    by (simp add: t e)
qed

text \<open>
  Claim C4 as stated fails on its own input. The rows of the panel are made by
  \<open>addECToCustomURL\<close>, and a colour field holds its colour in lower case: with the
  pathway id \<open>map00010\<close>, the row added for K00001 with \<open>#FF0000\<close> and \<open>#FFFFFF\<close> gives
  a URL with \<open>%23ff0000,%23ffffff\<close>, which is not the string of the claim. The script
  trims the identifier of a row before it encodes it: the row added for K00001 with a
  leading space gives the segment \<open>K00001\<close>, where the percent-encoding of the
  identifier is \<open>%20K00001\<close>. And for an identifier that is a lone surrogate there is no
  URL: \<open>encodeURIComponent\<close> throws.
\<close>

theorem updateKEGGUrl_lower_case_colours:
  "addECToCustomURL (loadedPage\<lparr>pathwayInput := ''map00010''\<rparr>) ''K00001''
     (Some ''#FF0000'') (Some ''#FFFFFF'')
     = Some (Inr (loadedPage\<lparr>pathwayInput := ''map00010'',
         colorSelection := [\<lparr>ecNumber = ''K00001'', bgcolor = ''#ff0000'', fgcolor = ''#ffffff''\<rparr>],
         keggUrlInput := ''https://www.kegg.jp/kegg-bin/show_pathway?map00010/K00001%09%23ff0000,%23ffffff/default%3d%23FFFFFF'',
         keggLinkHref := ''https://www.kegg.jp/kegg-bin/show_pathway?map00010/K00001%09%23ff0000,%23ffffff/default%3d%23FFFFFF'',
         keggLinkText := ''Open KEGG Map'', keggLinkHidden := False\<rparr>))
   \<and> ''https://www.kegg.jp/kegg-bin/show_pathway?map00010/K00001%09%23ff0000,%23ffffff/default%3d%23FFFFFF''
       \<noteq> ''https://www.kegg.jp/kegg-bin/show_pathway?map00010/K00001%09%23FF0000,%23FFFFFF/default%3d%23FFFFFF''
   \<and> map_option (map_sum id keggUrlInput)
         (addECToCustomURL (loadedPage\<lparr>pathwayInput := ''map00010''\<rparr>) '' K00001'' None None)
       = Some (Inr ''https://www.kegg.jp/kegg-bin/show_pathway?map00010/K00001%09%23ff0000,%23ffffff/default%3d%23FFFFFF'')
   \<and> encodeURIComponent '' K00001'' = ''%20K00001''
   \<and> addECToCustomURL (loadedPage\<lparr>pathwayInput := ''map00010''\<rparr>)
         [CHR 0xED, CHR 0xA0, CHR 0x80] None None = Some (Inl URIError)"
  by code_simp

text \<open>
  Claim C5, amended: \<open>updateKEGGUrl\<close> trims the pathway id and accepts it exactly when
  the trimmed id is \<open>map\<close> followed by five ASCII digits (\<open>map00010\<close> is accepted,
  \<open>map123\<close> is rejected). On rejection the call returns, the URL field and the link are
  cleared, and the error message is shown when the trimmed id is not empty; an empty id
  is rejected without a message. An accepted id without rows gives the notice to add a K
  number, the URL field left as it was; with rows it gives the URL made of the trimmed
  id and the rows.
\<close>

theorem updateKEGGUrl_validation:
  "(testMapId s \<longleftrightarrow> (\<exists>ds. s = ''map'' @ ds \<and> length ds = 5 \<and> list_all isDigit ds))
   \<and> testMapId ''map00010'' \<and> \<not> testMapId ''map123''
   \<and> (\<not> testMapId (trim (pathwayInput pg)) \<longrightarrow>
        updateKEGGUrl pg =
          Inr (pg\<lparr>keggUrlInput := [], keggLinkHref := ''#'', keggLinkText := [],
                  keggLinkHidden := True,
                  messages := (if trim (pathwayInput pg) = [] then messages pg
                               else messages pg @
                                 [(''Invalid pathway ID. Must be in format map00000'', ''error'')])\<rparr>))
   \<and> (testMapId (trim (pathwayInput pg)) \<longrightarrow>
        updateKEGGUrl pg =
          (if colorSelection pg = []
           then Inr (pg\<lparr>messages := messages pg @
                         [(''Please add at least one K number'', ''error'')]\<rparr>)
           else case mapQueryPart (colorSelection pg) of
                  Inl e \<Rightarrow> Inl e
                | Inr qs \<Rightarrow>
                    Inr (pg\<lparr>keggUrlInput := ''https://www.kegg.jp/kegg-bin/show_pathway?'' @
                               trim (pathwayInput pg) @ ''/'' @ join ''/'' qs @ ''/default%3d%23FFFFFF'',
                            keggLinkHref := ''https://www.kegg.jp/kegg-bin/show_pathway?'' @
                               trim (pathwayInput pg) @ ''/'' @ join ''/'' qs @ ''/default%3d%23FFFFFF'',
                            keggLinkText := ''Open KEGG Map'', keggLinkHidden := False\<rparr>)))"
proof -
  have ex: "testMapId ''map00010'' \<and> \<not> testMapId ''map123''"
    by code_simp
  show ?thesis
    using ex testMapId_iff [of s] updateKEGGUrl_reject [of pg] updateKEGGUrl_empty [of pg]
      updateKEGGUrl_accept [of pg]
    by simp
qed

theorem updateKEGGUrl_validation_witness:
  "updateKEGGUrl (loadedPage\<lparr>pathwayInput := ''map123'',
       keggUrlInput := ''https://www.kegg.jp/kegg-bin/show_pathway?map00010/K00001%09%23ff0000,%23ffffff/default%3d%23FFFFFF'',
       keggLinkHidden := False\<rparr>)
     = Inr (loadedPage\<lparr>pathwayInput := ''map123'',
         messages := [(''Invalid pathway ID. Must be in format map00000'', ''error'')]\<rparr>)
   \<and> updateKEGGUrl (loadedPage\<lparr>pathwayInput := [CHR 0xC2, CHR 0xA0, CHR 0x20]\<rparr>)
     = Inr (loadedPage\<lparr>pathwayInput := [CHR 0xC2, CHR 0xA0, CHR 0x20]\<rparr>)
   \<and> updateKEGGUrl (loadedPage\<lparr>pathwayInput := ''map00010''\<rparr>)
     = Inr (loadedPage\<lparr>pathwayInput := ''map00010'',
         messages := [(''Please add at least one K number'', ''error'')]\<rparr>)
   \<and> map_sum id keggUrlInput
       (updateKEGGUrl (loadedPage\<lparr>pathwayInput := CHR 0xC2 # CHR 0xA0 # ''map00010 '',
         colorSelection := [\<lparr>ecNumber = ''K00001'', bgcolor = ''#ff0000'', fgcolor = ''#ffffff''\<rparr>]\<rparr>))
     = Inr ''https://www.kegg.jp/kegg-bin/show_pathway?map00010/K00001%09%23ff0000,%23ffffff/default%3d%23FFFFFF''"
proof -
  let ?url = "''https://www.kegg.jp/kegg-bin/show_pathway?map00010/K00001%09%23ff0000,%23ffffff/default%3d%23FFFFFF''"
  let ?row = "\<lparr>ecNumber = ''K00001'', bgcolor = ''#ff0000'', fgcolor = ''#ffffff''\<rparr>"
  have t: "trim ''map123'' = ''map123''" "trim ''map00010'' = ''map00010''"
    "trim [CHR 0xC2, CHR 0xA0, CHR 0x20] = []"
    "trim (CHR 0xC2 # CHR 0xA0 # ''map00010 '') = ''map00010''"
    by code_simp+
  have a: "\<not> testMapId ''map123''" "testMapId ''map00010''" "\<not> testMapId []"
    by code_simp+
  have q: "queryPart ?row = Inr ''K00001%09%23ff0000,%23ffffff''"
    by code_simp
  have 1: "updateKEGGUrl (loadedPage\<lparr>pathwayInput := ''map123'', keggUrlInput := ?url,
       keggLinkHidden := False\<rparr>)
     = Inr (loadedPage\<lparr>pathwayInput := ''map123'',
         messages := [(''Invalid pathway ID. Must be in format map00000'', ''error'')]\<rparr>)"
    using a(1) updateKEGGUrl_validation [of "''map123''" "loadedPage\<lparr>pathwayInput := ''map123'',
       keggUrlInput := ?url, keggLinkHidden := False\<rparr>"]
    by (simp add: t loadedPage_def)
  have 2: "updateKEGGUrl (loadedPage\<lparr>pathwayInput := [CHR 0xC2, CHR 0xA0, CHR 0x20]\<rparr>)
     = Inr (loadedPage\<lparr>pathwayInput := [CHR 0xC2, CHR 0xA0, CHR 0x20]\<rparr>)"
    using a(3) updateKEGGUrl_validation [of "''map123''" "loadedPage\<lparr>pathwayInput := [CHR 0xC2, CHR 0xA0, CHR 0x20]\<rparr>"]
    by (simp add: t loadedPage_def)
  have 3: "updateKEGGUrl (loadedPage\<lparr>pathwayInput := ''map00010''\<rparr>)
     = Inr (loadedPage\<lparr>pathwayInput := ''map00010'',
         messages := [(''Please add at least one K number'', ''error'')]\<rparr>)"
    using a(2) updateKEGGUrl_validation [of "''map123''" "loadedPage\<lparr>pathwayInput := ''map00010''\<rparr>"]
    by (simp add: t loadedPage_def)
  have 4: "map_sum id keggUrlInput
       (updateKEGGUrl (loadedPage\<lparr>pathwayInput := CHR 0xC2 # CHR 0xA0 # ''map00010 '',
         colorSelection := [?row]\<rparr>)) = Inr ?url"
    using a(2) updateKEGGUrl_validation [of "''map123''" "loadedPage\<lparr>pathwayInput := CHR 0xC2 # CHR 0xA0 # ''map00010 '',
         colorSelection := [?row]\<rparr>"]
    by (simp add: t q)
  from 1 2 3 4 show ?thesis
    by blast
qed

text \<open>
  Claim C5 as stated fails twice. The empty id of the loaded page is rejected and the
  URL stays cleared, but no message is added: the script shows the error only
  \<open>if (mapId)\<close>. And the id \<open>map00010\<close> with a leading space does not match the grammar,
  yet it is accepted, since the test is made on the trimmed value.
\<close>

theorem updateKEGGUrl_silent_rejection:
  "\<not> testMapId (pathwayInput loadedPage)
   \<and> updateKEGGUrl loadedPage = Inr loadedPage
   \<and> keggUrlInput loadedPage = [] \<and> messages loadedPage = []
   \<and> \<not> testMapId '' map00010''
   \<and> map_sum id keggUrlInput
       (updateKEGGUrl (loadedPage\<lparr>pathwayInput := '' map00010'',
          colorSelection := [\<lparr>ecNumber = ''K00001'', bgcolor = ''#ff0000'', fgcolor = ''#ffffff''\<rparr>]\<rparr>))
     = Inr ''https://www.kegg.jp/kegg-bin/show_pathway?map00010/K00001%09%23ff0000,%23ffffff/default%3d%23FFFFFF''"
  by code_simp

text \<open>
  Claim C7 says that a second call of \<open>addEntry\<close> with the same identifier changes
  nothing, so that the rows stay unique by identifier. \<open>addECToCustomURL\<close> looks for a
  row whose K number field has the identifier as its value, but it writes the
  identifier into the markup of the row as it is, and the field takes its value from
  the markup. For the identifier \<open>K1&amp;x\<close> the field holds \<open>K1&x\<close>: the second call
  finds no row with the value \<open>K1&amp;x\<close> and adds a second row, equal to the first.
  An identifier with a quotation mark, K and 1 around it, leaves the field with the
  value K, and the second call adds a second row as well. (For an identifier that the
  markup leaves as it is the second call changes nothing, lemma
  \<open>addECToCustomURL_plain_identifier\<close>.)
\<close>

theorem addECToCustomURL_escaped_identifier:
  "addECToCustomURL loadedPage ''K1&amp;x'' None None
     = Some (Inr (loadedPage\<lparr>colorSelection :=
         [\<lparr>ecNumber = ''K1&x'', bgcolor = ''#ff0000'', fgcolor = ''#ffffff''\<rparr>]\<rparr>))
   \<and> addECToCustomURL
        (loadedPage\<lparr>colorSelection :=
           [\<lparr>ecNumber = ''K1&x'', bgcolor = ''#ff0000'', fgcolor = ''#ffffff''\<rparr>]\<rparr>)
        ''K1&amp;x'' None None
     = Some (Inr (loadedPage\<lparr>colorSelection :=
         [\<lparr>ecNumber = ''K1&x'', bgcolor = ''#ff0000'', fgcolor = ''#ffffff''\<rparr>,
          \<lparr>ecNumber = ''K1&x'', bgcolor = ''#ff0000'', fgcolor = ''#ffffff''\<rparr>]\<rparr>))
   \<and> addECToCustomURL
        (loadedPage\<lparr>colorSelection :=
           [\<lparr>ecNumber = ''K'', bgcolor = ''#ff0000'', fgcolor = ''#ffffff''\<rparr>]\<rparr>)
        [CHR ''K'', CHR 0x22, CHR ''1''] None None
     = Some (Inr (loadedPage\<lparr>colorSelection :=
         [\<lparr>ecNumber = ''K'', bgcolor = ''#ff0000'', fgcolor = ''#ffffff''\<rparr>,
          \<lparr>ecNumber = ''K'', bgcolor = ''#ff0000'', fgcolor = ''#ffffff''\<rparr>]\<rparr>))"
  by code_simp

subsection \<open>The tree\<close>

text \<open>
  Claim C1 says that a category whose children are all pruned is pruned itself, so that
  the document \<open>{"A": {"B": "   "}}\<close> gives an empty forest. \<open>createNode\<close> returns \<open>null\<close>
  for a category only when it has no entry with a non-blank key, a test it makes before
  it builds the children; it does not look at the children it has built, where the
  array branch tests the entries it has filtered. The leaf B is pruned and the category
  A is emitted with no child.
\<close>

theorem renderJSON_keeps_empty_category:
  "renderJSON emptyIndex (JObj [(''A'', JObj [(''B'', JStr ''   '')])]) = Inr [CategoryNode ''A'' []]
   \<and> renderJSON emptyIndex (JObj [(''A'', JObj [(''B'', JStr ''   '')])]) \<noteq> Inr []
   \<and> createNode emptyIndex ''B'' (JStr ''   '') = Inr None
   \<and> createNode emptyIndex ''A'' (JArr [JObj [(''B'', JStr ''   '')]]) = Inr None"
  by code_simp




end
